theory Spec2Isabelle
  imports Main "HOL-Library.AList"
begin

section \<open>JavaScript strings\<close>

text \<open>
  A JavaScript string is a sequence of UTF-16 code units. A code unit is modelled by its
  number, so that the characters beyond Latin-1 which the parser names (the superscript
  digits, the dashes, the bullet, the arrow) are single elements, as they are in
  JavaScript. \<open>js\<close> embeds an ASCII literal.
\<close>

type_synonym jstring = "nat list"

definition js :: "string \<Rightarrow> jstring" where
  "js s = map of_char s"

text \<open>
  The characters of the regular expression class \<^verbatim>\<open>\s\<close>, which are also the ones
  \<^verbatim>\<open>String.prototype.trim\<close> strips (WhiteSpace and LineTerminator of ECMAScript).
\<close>

definition isSpace :: "nat \<Rightarrow> bool" where
  "isSpace c = (c = 9 \<or> c = 10 \<or> c = 11 \<or> c = 12 \<or> c = 13 \<or> c = 32 \<or> c = 160 \<or>
     c = 5760 \<or> (8192 \<le> c \<and> c \<le> 8202) \<or> c = 8232 \<or> c = 8233 \<or> c = 8239 \<or>
     c = 8287 \<or> c = 12288 \<or> c = 65279)"

definition trim :: "jstring \<Rightarrow> jstring" where
  "trim s = rev (dropWhile isSpace (rev (dropWhile isSpace s)))"

text \<open>\<^verbatim>\<open>s.split(/\s+/)\<close>: the pieces between the maximal runs of white space.\<close>

fun splitWs :: "jstring \<Rightarrow> jstring list" where
  "splitWs [] = [[]]"
| "splitWs (c # cs) =
     (if isSpace c then (if cs \<noteq> [] \<and> isSpace (hd cs) then splitWs cs else [] # splitWs cs)
      else (case splitWs cs of [] \<Rightarrow> [[c]] | p # ps \<Rightarrow> (c # p) # ps))"

text \<open>\<^verbatim>\<open>n.toString()\<close> of a non-negative integer: its decimal digits.\<close>

fun toStringNat :: "nat \<Rightarrow> jstring" where
  "toStringNat n = (if n < 10 then [48 + n] else toStringNat (n div 10) @ [48 + n mod 10])"

declare toStringNat.simps [simp del]

text \<open>The classes \<^verbatim>\<open>\d\<close> and \<^verbatim>\<open>\w\<close>, and the characters \<^verbatim>\<open>.\<close> does not match.\<close>

definition isDigit :: "nat \<Rightarrow> bool" where
  "isDigit c = (48 \<le> c \<and> c \<le> 57)"

definition isWord :: "nat \<Rightarrow> bool" where
  "isWord c = ((48 \<le> c \<and> c \<le> 57) \<or> (65 \<le> c \<and> c \<le> 90) \<or> (97 \<le> c \<and> c \<le> 122) \<or> c = 95)"

definition isLineTerminator :: "nat \<Rightarrow> bool" where
  "isLineTerminator c = (c = 10 \<or> c = 13 \<or> c = 8232 \<or> c = 8233)"

definition startsWith :: "jstring \<Rightarrow> jstring \<Rightarrow> bool" where
  "startsWith pat s = (take (length pat) s = pat)"

text \<open>\<^verbatim>\<open>s.includes(pat)\<close>.\<close>

fun str_includes :: "jstring \<Rightarrow> jstring \<Rightarrow> bool" where
  "str_includes [] pat = (pat = [])"
| "str_includes (c # cs) pat = (startsWith pat (c # cs) \<or> str_includes cs pat)"

text \<open>\<^verbatim>\<open>s.split(sep)\<close> for a separator of one character.\<close>

fun splitOn :: "nat \<Rightarrow> jstring \<Rightarrow> jstring list" where
  "splitOn sep [] = [[]]"
| "splitOn sep (c # cs) =
     (if c = sep then [] # splitOn sep cs
      else (case splitOn sep cs of [] \<Rightarrow> [[c]] | p # ps \<Rightarrow> (c # p) # ps))"

text \<open>
  \<^verbatim>\<open>s.replace(pat, '')\<close> for a string \<open>pat\<close>: the first occurrence of \<open>pat\<close> is removed
  (the empty pattern occurs at the start and removes nothing).
\<close>

fun removeFirst :: "jstring \<Rightarrow> jstring \<Rightarrow> jstring" where
  "removeFirst pat [] = []"
| "removeFirst pat (c # cs) =
     (if startsWith pat (c # cs) then drop (length pat) (c # cs) else c # removeFirst pat cs)"

text \<open>\<^verbatim>\<open>s.replace(/\s+/g, ' ')\<close>: every maximal run of white space becomes one space.\<close>

fun collapseWs :: "jstring \<Rightarrow> jstring" where
  "collapseWs [] = []"
| "collapseWs (c # cs) =
     (if isSpace c then (if cs \<noteq> [] \<and> isSpace (hd cs) then collapseWs cs else 32 # collapseWs cs)
      else c # collapseWs cs)"

text \<open>\<^verbatim>\<open>s.replace(/^\s*:\s*/, '')\<close>.\<close>

definition stripLeadingColon :: "jstring \<Rightarrow> jstring" where
  "stripLeadingColon s =
     (case dropWhile isSpace s of
        [] \<Rightarrow> s
      | c # r \<Rightarrow> if c = 58 then dropWhile isSpace r else s)"

text \<open>
  \<^verbatim>\<open>s.replace(/\s*[;:]\s*$/, '')\<close>. The expression matches when the last character that
  is not white space is a semicolon or a colon; the match is that character with the
  white space on both sides of it.
\<close>

definition stripTrailingSeparator :: "jstring \<Rightarrow> jstring" where
  "stripTrailingSeparator s =
     (case dropWhile isSpace (rev s) of
        [] \<Rightarrow> s
      | c # r \<Rightarrow> if c = 59 \<or> c = 58 then rev (dropWhile isSpace r) else s)"

text \<open>
  \<^verbatim>\<open>s.replace(/^[-\<dots>\s]+/, '')\<close> where the class holds the hyphen, the en dash
  (U+2013), the em dash (U+2014), the bullet (U+2022) and white space.
\<close>

definition stripLeadingDashes :: "jstring \<Rightarrow> jstring" where
  "stripLeadingDashes s =
     dropWhile (\<lambda>c. c = 45 \<or> c = 8211 \<or> c = 8212 \<or> c = 8226 \<or> isSpace c) s"

text \<open>
  \<^verbatim>\<open>s.replace(/<[^>]*>/g, rep)\<close>: from a \<^verbatim>\<open><\<close> that has a \<^verbatim>\<open>>\<close> after it up to the first such
  \<^verbatim>\<open>>\<close>. The flag says that the scan is inside a tag.
\<close>

fun replaceTags :: "jstring \<Rightarrow> bool \<Rightarrow> jstring \<Rightarrow> jstring" where
  "replaceTags rep inTag [] = []"
| "replaceTags rep inTag (c # cs) =
     (if inTag then (if c = 62 then rep @ replaceTags rep False cs else replaceTags rep True cs)
      else if c = 60 \<and> 62 \<in> set cs then replaceTags rep True cs
      else c # replaceTags rep False cs)"

text \<open>
  \<^verbatim>\<open>s.replace(/\[(.*?)\]/g, '$1')\<close>: an opening bracket whose nearest closing bracket
  comes before any line terminator is removed together with that closing bracket. The
  flag says that the scan is between the two.
\<close>

fun stripBrackets :: "bool \<Rightarrow> jstring \<Rightarrow> jstring" where
  "stripBrackets inside [] = []"
| "stripBrackets inside (c # cs) =
     (if inside then (if c = 93 then stripBrackets False cs else c # stripBrackets True cs)
      else if c = 91 \<and> 93 \<in> set cs \<and> \<not> list_ex isLineTerminator (takeWhile (\<lambda>x. x \<noteq> 93) cs)
      then stripBrackets True cs
      else c # stripBrackets False cs)"

text \<open>The maximal runs of word characters of a string, in order.\<close>

fun wordRuns :: "jstring \<Rightarrow> jstring list" where
  "wordRuns [] = []"
| "wordRuns (c # cs) =
     (if isWord c
      then (if cs \<noteq> [] \<and> isWord (hd cs)
            then (case wordRuns cs of [] \<Rightarrow> [[c]] | r # rs \<Rightarrow> (c # r) # rs)
            else [c] # wordRuns cs)
      else wordRuns cs)"

text \<open>ASCII case folding, which is what the flag \<^verbatim>\<open>i\<close> does to an ASCII pattern.\<close>

definition lowerAscii :: "nat \<Rightarrow> nat" where
  "lowerAscii c = (if 65 \<le> c \<and> c \<le> 90 then c + 32 else c)"

definition startsWithCI :: "jstring \<Rightarrow> jstring \<Rightarrow> bool" where
  "startsWithCI pat s = startsWith (map lowerAscii pat) (map lowerAscii s)"

text \<open>
  \<^verbatim>\<open>parseInt\<close> of a string of decimal digits. (JavaScript numbers are doubles: beyond
  \<open>2\<^sup>5\<^sup>3\<close> the value is rounded, which the model does not follow.)
\<close>

definition parseIntDigits :: "jstring \<Rightarrow> nat" where
  "parseIntDigits ds = foldl (\<lambda>n c. 10 * n + (c - 48)) 0 ds"

section \<open>The data model: word classes, examples, meanings\<close>

record wordclass =
  kode :: jstring
  nama :: jstring

record example =
  contoh_nomor :: nat
  teks :: jstring

text \<open>
  The \<^verbatim>\<open>nomor\<close> of a meaning is a string on the list paths
  (\<^verbatim>\<open>meaningNumber.toString()\<close>), a number in \<^verbatim>\<open>extractCompoundWordMeanings\<close>
  (\<^verbatim>\<open>nomor: i + 1\<close>) and absent on the details page; \<^verbatim>\<open>kiasan\<close> exists only in
  \<^verbatim>\<open>extractCompoundWordMeanings\<close>. An absent key is \<open>None\<close>.
\<close>

datatype jsnomor = NomorStr jstring | NomorNum nat

record meaning =
  nomor :: "jsnomor option"
  kelasKata :: "wordclass list"
  definisi :: jstring
  contoh :: "example list"
  kiasan :: "bool option"

record etimologi =
  etim_text :: jstring \<comment> \<open>the key \<^verbatim>\<open>text\<close>\<close>
  languages :: "jstring list"

record terkait =
  kataTurunan :: "jstring list"
  gabunganKata :: "jstring list"
  peribahasa :: "jstring list"
  idiom :: "jstring list"

text \<open>
  An entry is a JavaScript object whose keys differ from one path to the other
  (\<^verbatim>\<open>result.id = value\<close>, \<^verbatim>\<open>entry.jenis = entryType\<close>, the spread of the orchestrator),
  and \<^verbatim>\<open>parseDetailsPage\<close> counts them (\<^verbatim>\<open>Object.keys(result).length\<close>). It is modelled as
  the list of its keys with their values, in insertion order; an assignment is
  \<^const>\<open>AList.update\<close>, which replaces the value of a key in place and appends a new key.
\<close>

datatype val =
    VNull
  | VStr jstring
  | VMakna "meaning list"
  | VEtimologi etimologi
  | VTerkait terkait

type_synonym entry = "(string \<times> val) list"

text \<open>\<^verbatim>\<open>...details\<close> onto \<^verbatim>\<open>...entry\<close>: the keys of the second object are assigned in order.\<close>

definition spread :: "entry \<Rightarrow> entry \<Rightarrow> entry" where
  "spread obj src = fold (\<lambda>(k, v). AList.update k v) src obj"

section \<open>The query surface of a list item\<close>

text \<open>
  The parser reads a document through cheerio, a library that is not part of the
  repository. Each cheerio expression of the source is a field of a view record holding
  what the expression evaluates to on the element; the parser's own code (control flow,
  string processing, the objects it builds) is translated on top of these fields.
\<close>

record span_view =
  span_text :: jstring \<comment> \<open>\<^verbatim>\<open>$span.text()\<close>\<close>
  span_title :: jstring \<comment> \<open>\<^verbatim>\<open>$span.attr('title')\<close>, present by the selector \<^verbatim>\<open>span[title]\<close>\<close>

record font_view =
  font_nested :: bool
    \<comment> \<open>\<^verbatim>\<open>$font.parents('font[color="red"], [color="red"]').length > 0\<close>\<close>
  font_text :: jstring \<comment> \<open>\<^verbatim>\<open>$font.text()\<close>\<close>
  font_title :: "jstring option"
    \<comment> \<open>\<^verbatim>\<open>$font.find('span[title]')\<close>: \<open>None\<close> when empty, else \<^verbatim>\<open>.attr('title')\<close>
        (of its first element)\<close>

record li_view =
  li_text :: jstring \<comment> \<open>\<^verbatim>\<open>$li.text()\<close>\<close>
  li_titled_spans :: "span_view list"
    \<comment> \<open>\<^verbatim>\<open>$li.find('font[color="red"] span[title], [color="red"] span[title]')\<close>\<close>
  li_red :: "font_view list"
    \<comment> \<open>\<^verbatim>\<open>$li.find('font[color="red"], [color="red"]')\<close>\<close>
  li_def_text :: jstring
    \<comment> \<open>\<^verbatim>\<open>$clone.text()\<close> once the grey, the red and the \<^verbatim>\<open>.entrisButton\<close> elements
        are removed from the clone of the item\<close>
  li_grey :: "jstring list"
    \<comment> \<open>\<^verbatim>\<open>$li.find('font[color="grey"]')\<close>, the \<^verbatim>\<open>.text()\<close> of each element\<close>
  li_ki :: nat \<comment> \<open>\<^verbatim>\<open>$li.find('i:contains("ki")').length\<close>\<close>

section \<open>The query surface of a heading and of a document\<close>

record link_view =
  link_text :: jstring \<comment> \<open>\<^verbatim>\<open>$link.text()\<close>\<close>
  link_sup :: "jstring option"
    \<comment> \<open>\<^verbatim>\<open>$link.find('sup')\<close>: \<open>None\<close> when empty, else its \<^verbatim>\<open>.text()\<close>\<close>

text \<open>An element among the siblings that follow a heading.\<close>

record sibling_view =
  sib_tag :: string \<comment> \<open>the tag name, in lower case as cheerio keeps it\<close>
  sib_text :: jstring \<comment> \<open>\<^verbatim>\<open>$(el).text()\<close>\<close>
  sib_items :: "li_view list" \<comment> \<open>\<^verbatim>\<open>.children('li')\<close>\<close>

record section_view =
  sec_text :: jstring \<comment> \<open>\<^verbatim>\<open>$section.text()\<close>\<close>
  sec_links :: "jstring list option"
    \<comment> \<open>\<^verbatim>\<open>$section.next('ul')\<close>: \<open>None\<close> when empty, else the \<^verbatim>\<open>.text()\<close> of each
        element of \<^verbatim>\<open>$container.find('a')\<close>\<close>

record block_view =
  blk_after_heading :: bool
    \<comment> \<open>\<^verbatim>\<open>$(el).prevAll('h2').first().get(0) === $h2.get(0)\<close>\<close>
  blk_text :: jstring \<comment> \<open>\<^verbatim>\<open>$(el).text()\<close>\<close>

text \<open>A node of the \<^verbatim>\<open>nextSibling\<close> chain: a text node, an element, or another node.\<close>

datatype node_view = TextNode jstring | ElementNode string | OtherNode

record heading_view =
  h_italic :: "jstring option"
    \<comment> \<open>\<^verbatim>\<open>$element.find('i')\<close>: \<open>None\<close> when empty, else its \<^verbatim>\<open>.text()\<close>\<close>
  h_own_text :: jstring
    \<comment> \<open>\<^verbatim>\<open>$element.clone().children().remove().end().text()\<close>\<close>
  h_sup :: "jstring option"
    \<comment> \<open>\<^verbatim>\<open>$h2.find('sup')\<close>: \<open>None\<close> when empty, else its \<^verbatim>\<open>.text()\<close>\<close>
  h_edit_href :: "jstring option"
    \<comment> \<open>\<^verbatim>\<open>$h2.find('a[href*="Edit"]')\<close>: \<open>None\<close> when empty, else \<^verbatim>\<open>.attr('href')\<close>\<close>
  h_view_href :: "jstring option"
    \<comment> \<open>\<^verbatim>\<open>$h2.find('a[href*="View"]')\<close>, likewise\<close>
  h_parent_href :: "jstring option"
    \<comment> \<open>\<^verbatim>\<open>$h2.parent().find('a[href*="entri"]')\<close>, likewise\<close>
  h_small :: "jstring option"
    \<comment> \<open>\<^verbatim>\<open>$h2.nextAll('small[style*="color:saddlebrown"]').first()\<close>: \<open>None\<close> when empty,
        else its \<^verbatim>\<open>.text()\<close>\<close>
  h_rootword :: "link_view option"
    \<comment> \<open>\<^verbatim>\<open>$h2.find('.rootword').find('a')\<close>: \<open>None\<close> when empty\<close>
  h_next_until :: "sibling_view list" \<comment> \<open>\<^verbatim>\<open>$h2.nextUntil('h2, h4')\<close>\<close>
  h_sections :: "section_view list" \<comment> \<open>\<^verbatim>\<open>$h2.nextAll('h4')\<close>\<close>
  h_next_ol :: "li_view list option"
    \<comment> \<open>\<^verbatim>\<open>$h2.nextAll('ol').first()\<close>: \<open>None\<close> when empty, else its \<^verbatim>\<open>.find('li')\<close>\<close>
  h_parent_ol :: "li_view list option"
    \<comment> \<open>\<^verbatim>\<open>$h2.parent().find('ol').first()\<close>, likewise\<close>
  h_blocks :: "block_view list" \<comment> \<open>\<^verbatim>\<open>$h2.parent().parent().find('p, div')\<close>\<close>
  h_siblings :: "node_view list"
    \<comment> \<open>the nodes reached from \<^verbatim>\<open>$h2.get(0).nextSibling\<close> by \<^verbatim>\<open>nextSibling\<close>\<close>

record row_view =
  row_label :: jstring \<comment> \<open>\<^verbatim>\<open>$row.find('.col-md-2 b').text()\<close>\<close>
  row_data :: jstring \<comment> \<open>\<^verbatim>\<open>$row.find('.col-md-10').text()\<close>\<close>

record h4_view =
  h4_text :: jstring \<comment> \<open>\<^verbatim>\<open>$(h4).text()\<close>\<close>
  h4_rows :: "row_view list" \<comment> \<open>\<^verbatim>\<open>$(h4).nextUntil('h4', '.row')\<close>\<close>

text \<open>
  The document that \<^verbatim>\<open>cheerio.load(html)\<close> gives the parser, through the queries the parser
  makes on it (\<^verbatim>\<open>this.$(...)\<close>).
\<close>

record doc_view =
  d_entry_headings :: "heading_view list" \<comment> \<open>\<^verbatim>\<open>$('h2[style*="margin-bottom:3px"]')\<close>\<close>
  d_not_found :: nat \<comment> \<open>\<^verbatim>\<open>$('div:contains("Entri tidak ditemukan")').length\<close>\<close>
  d_detail_data :: nat \<comment> \<open>\<^verbatim>\<open>$('.page-header h2:contains("Detail Data")').length\<close>\<close>
  d_col_md_3 :: "jstring list" \<comment> \<open>\<^verbatim>\<open>$('.col-md-3')\<close>, the \<^verbatim>\<open>.text()\<close> of each element\<close>
  d_daftar_selaras :: "jstring list"
    \<comment> \<open>\<^verbatim>\<open>$('ul.daftar-selaras li a')\<close>, the \<^verbatim>\<open>.text()\<close> of each element\<close>
  d_keluar_links :: nat \<comment> \<open>\<^verbatim>\<open>$('a:contains("Keluar")').length\<close>\<close>
  d_keluar_buttons :: nat \<comment> \<open>\<^verbatim>\<open>$('button:contains("Keluar")').length\<close>\<close>
  d_kata_dasar :: "jstring list"
    \<comment> \<open>\<^verbatim>\<open>$('h4:contains("Kata Dasar")').next('ul').find('a')\<close>, the \<^verbatim>\<open>.text()\<close> of each\<close>
  d_html :: jstring \<comment> \<open>\<^verbatim>\<open>this.$.html()\<close>\<close>
  d_rows :: "row_view list" \<comment> \<open>\<^verbatim>\<open>$('.row')\<close>\<close>
  d_h4 :: "h4_view list" \<comment> \<open>\<^verbatim>\<open>$('h4')\<close>\<close>
  d_title_rootword :: "link_view option"
    \<comment> \<open>\<^verbatim>\<open>$('.page-header h2').find('.rootword a')\<close>: \<open>None\<close> when empty\<close>
  d_first_h2 :: "heading_view option"
    \<comment> \<open>\<^verbatim>\<open>$('h2').first()\<close>: \<open>None\<close> when the document has no \<^verbatim>\<open>h2\<close>\<close>

section \<open>extractWordClasses\<close>

text \<open>\<^verbatim>\<open>title.split(':')[0]?.trim() || ''\<close>: the title up to its first colon, trimmed.\<close>

definition titleName :: "jstring \<Rightarrow> jstring" where
  "titleName title = trim (takeWhile (\<lambda>c. c \<noteq> 58) title)"

text \<open>The \<^verbatim>\<open>switch (cleanPart)\<close> of Method 2, with its \<^verbatim>\<open>default: name = ''\<close>.\<close>

definition classNameOf :: "jstring \<Rightarrow> jstring" where
  "classNameOf cleanPart =
     (if cleanPart = js ''n'' then js ''Nomina''
      else if cleanPart = js ''v'' then js ''Verba''
      else if cleanPart = js ''a'' then js ''Adjektiva''
      else if cleanPart = js ''adv'' then js ''Adverbia''
      else if cleanPart = js ''num'' then js ''Numeralia''
      else if cleanPart = js ''p'' then js ''Partikel''
      else if cleanPart = js ''pron'' then js ''Pronomina''
      else if cleanPart = js ''ki'' then js ''kiasan''
      else if cleanPart = js ''Jp'' then js ''Jepang''
      else if cleanPart = js ''sing'' then js ''singkatan''
      else if cleanPart = js ''Komp'' then js ''Komputer''
      else if cleanPart = js ''Prw'' then js ''Pariwisata''
      else if cleanPart = js ''Kap'' then js ''Perkapalan''
      else [])"

text \<open>Method 1: the spans with a title inside a red element.\<close>

definition extractWordClasses_method1 :: "li_view \<Rightarrow> wordclass list" where
  "extractWordClasses_method1 li =
     concat (map (\<lambda>sp.
       let code = trim (span_text sp); title = span_title sp
       in if code \<noteq> [] \<and> title \<noteq> [] then [\<lparr>kode = code, nama = titleName title\<rparr>] else [])
       (li_titled_spans li))"

text \<open>
  Method 2, the body of the loop over the red elements: an element inside another red
  element is skipped; the text is split on white space, the bare punctuation tokens are
  dropped, and each remaining token becomes one word class.
\<close>

definition isBarePunctuation :: "jstring \<Rightarrow> bool" where
  "isBarePunctuation p = (p = js '','' \<or> p = js '';'' \<or> p = js ''('' \<or> p = js '')'')"

definition fontTokens :: "font_view \<Rightarrow> jstring list" where
  "fontTokens f =
     (let fontText = trim (font_text f)
      in if fontText = [] then []
         else filter (\<lambda>cleanPart. cleanPart \<noteq> [] \<and> \<not> isBarePunctuation cleanPart)
                (map trim (splitWs fontText)))"

definition extractWordClasses_method2 :: "font_view \<Rightarrow> wordclass list" where
  "extractWordClasses_method2 f =
     (if font_nested f then []
      else map (\<lambda>cleanPart.
             \<lparr>kode = cleanPart,
              nama = (case font_title f of
                        Some title \<Rightarrow> (if title \<noteq> [] then titleName title else [])
                      | None \<Rightarrow> classNameOf cleanPart)\<rparr>)
             (fontTokens f))"

definition extractWordClasses :: "li_view \<Rightarrow> wordclass list" where
  "extractWordClasses li =
     (let classes = extractWordClasses_method1 li
      in if classes = [] then concat (map extractWordClasses_method2 (li_red li))
         else classes)"

section \<open>extractDefinition and extractExamples\<close>

definition extractDefinition :: "li_view \<Rightarrow> jstring" where
  "extractDefinition li =
     (let definition0 = trim (li_def_text li);
          definition1 = collapseWs definition0;
          definition2 = stripLeadingColon definition1;
          definition3 = stripTrailingSeparator definition2;
          definition4 = stripLeadingDashes definition3
      in if definition4 = [] then js ''Tidak tersedia'' else definition4)"

text \<open>
  \<^verbatim>\<open>parts.forEach((ex, index) => ...)\<close> of both extractors of examples: a part that is not
  empty once trimmed becomes the example numbered by its index plus one.
\<close>

definition examplesOf :: "jstring list \<Rightarrow> example list" where
  "examplesOf parts =
     concat (map (\<lambda>(index, ex).
       let exampleText = trim ex
       in if exampleText \<noteq> [] then [\<lparr>contoh_nomor = index + 1, teks = exampleText\<rparr>] else [])
       (enumerate 0 parts))"

text \<open>\<^verbatim>\<open>text.substring(text.indexOf(':') + 1)\<close>, when the colon exists.\<close>

definition afterFirstColon :: "jstring \<Rightarrow> jstring" where
  "afterFirstColon s = tl (dropWhile (\<lambda>c. c \<noteq> 58) s)"

definition extractExamples :: "li_view \<Rightarrow> example list" where
  "extractExamples li =
     (if li_grey li \<noteq> [] then examplesOf (li_grey li)
      else let txt0 = trim (li_text li)
           in if 58 \<in> set txt0
              then (let examplesText = trim (afterFirstColon txt0)
                    in if examplesText \<noteq> [] then examplesOf (splitOn 59 examplesText) else [])
              else [])"

section \<open>The meanings of a list\<close>

text \<open>
  The loop \<^verbatim>\<open>children('li').each((i, li) => ...)\<close>, the same in \<^verbatim>\<open>parseEntryDirectly\<close>
  and in \<^verbatim>\<open>extractMeaningsDirectly\<close>: an item whose text holds the marker
  \<^verbatim>\<open>Usulkan makna baru\<close> is skipped; the number of a meaning is \<^verbatim>\<open>i + 1\<close>, where \<open>i\<close> is
  the index of the item among all the items of the list.
\<close>

definition usulkanMaknaBaru :: jstring where
  "usulkanMaknaBaru = js ''Usulkan makna baru''"

definition meaningOfItem :: "nat \<Rightarrow> li_view \<Rightarrow> meaning list" where
  "meaningOfItem i li =
     (if str_includes (li_text li) usulkanMaknaBaru then []
      else let meaningNumber = i + 1;
               wordClasses = extractWordClasses li;
               definition0 = extractDefinition li;
               examples = extractExamples li
           in if definition0 \<noteq> []
              then [\<lparr>nomor = Some (NomorStr (toStringNat meaningNumber)), kelasKata = wordClasses,
                     definisi = definition0, contoh = examples, kiasan = None\<rparr>]
              else [])"

definition meaningsOfList :: "li_view list \<Rightarrow> meaning list" where
  "meaningsOfList items = concat (map (\<lambda>(i, li). meaningOfItem i li) (enumerate 0 items))"

section \<open>The extractors of a heading\<close>

definition extractText :: "heading_view \<Rightarrow> jstring" where
  "extractText h = (case h_italic h of Some t \<Rightarrow> trim t | None \<Rightarrow> trim (h_own_text h))"

definition extractNumber :: "heading_view \<Rightarrow> jstring" where
  "extractNumber h = (case h_sup h of Some t \<Rightarrow> trim t | None \<Rightarrow> [])"

text \<open>
  \<^verbatim>\<open>href.match(/eid=(\d+)/)\<close> and \<^verbatim>\<open>href.match(/\/(\d+)/)\<close>: the digits that follow the
  leftmost occurrence of the prefix which has a digit after it.
\<close>

fun matchDigitsAfter :: "jstring \<Rightarrow> jstring \<Rightarrow> jstring option" where
  "matchDigitsAfter pre [] = None"
| "matchDigitsAfter pre (c # cs) =
     (if startsWith pre (c # cs) \<and> takeWhile isDigit (drop (length pre) (c # cs)) \<noteq> []
      then Some (takeWhile isDigit (drop (length pre) (c # cs)))
      else matchDigitsAfter pre cs)"

definition extractId :: "heading_view \<Rightarrow> jstring option" where
  "extractId h =
     (case (case h_edit_href h of Some href \<Rightarrow> matchDigitsAfter (js ''eid='') href | None \<Rightarrow> None) of
        Some m \<Rightarrow> Some m
      | None \<Rightarrow>
     (case (case h_view_href h of Some href \<Rightarrow> matchDigitsAfter (js ''/'') href | None \<Rightarrow> None) of
        Some m \<Rightarrow> Some m
      | None \<Rightarrow>
     (case h_parent_href h of Some href \<Rightarrow> matchDigitsAfter (js ''/'') href | None \<Rightarrow> None)))"

definition extractEntryType :: "heading_view \<Rightarrow> jstring option" where
  "extractEntryType h =
     (case h_small h of Some t \<Rightarrow> Some (trim (replaceTags [] False t)) | None \<Rightarrow> None)"

text \<open>
  \<^verbatim>\<open>toSuperscript\<close>: each digit becomes its superscript (U+2070, U+00B9, U+00B2, U+00B3,
  U+2074 to U+2079), every other character stays.
\<close>

definition superscriptOf :: "nat \<Rightarrow> nat" where
  "superscriptOf c =
     (if c = 48 then 8304 else if c = 49 then 185 else if c = 50 then 178
      else if c = 51 then 179 else if 52 \<le> c \<and> c \<le> 57 then 8308 + (c - 52) else c)"

definition toSuperscript :: "jstring \<Rightarrow> jstring" where
  "toSuperscript number = map superscriptOf number"

text \<open>
  \<^verbatim>\<open>rootText.replace(/(\w+)\d+([\u00B9\u00B2\u00B3\u2074-\u207E]+)/, '$1$2')\<close>. The
  superscripts are not word characters, so the expression matches at the first maximal
  run of word characters that has two characters or more, ends with a digit and is
  followed by a superscript; the greedy \<^verbatim>\<open>\w+\<close> leaves \<^verbatim>\<open>\d+\<close> the last digit only, and that
  digit is what the replacement drops.
\<close>

definition isSuperscript :: "nat \<Rightarrow> bool" where
  "isSuperscript c = (c = 185 \<or> c = 178 \<or> c = 179 \<or> (8308 \<le> c \<and> c \<le> 8318))"

function stripStrayDigit :: "jstring \<Rightarrow> jstring" where
  "stripStrayDigit [] = []"
| "stripStrayDigit (c # cs) =
     (if isWord c
      then (let run = c # takeWhile isWord cs; rest = dropWhile isWord cs
            in if 2 \<le> length run \<and> isDigit (last run) \<and> rest \<noteq> [] \<and> isSuperscript (hd rest)
               then butlast run @ rest
               else run @ stripStrayDigit rest)
      else c # stripStrayDigit cs)"
  by pat_completeness auto
termination
  by (relation "measure length") (auto simp: less_Suc_eq_le length_dropWhile_le)

definition extractRootWord :: "doc_view \<Rightarrow> heading_view \<Rightarrow> jstring option" where
  "extractRootWord d h =
     (let rootWords = filter (\<lambda>rootText. rootText \<noteq> []) (map trim (d_kata_dasar d));
          rootWords2 =
            (if rootWords = []
             then (case h_rootword h of
                     None \<Rightarrow> []
                   | Some lnk \<Rightarrow>
                       (let rootText = trim (link_text lnk);
                            rootText2 =
                              (case link_sup lnk of
                                 None \<Rightarrow> rootText
                               | Some supText \<Rightarrow>
                                   (if trim supText \<noteq> []
                                    then rootText @ toSuperscript (trim supText)
                                    else rootText))
                        in [stripStrayDigit rootText2]))
             else rootWords)
      in case rootWords2 of [] \<Rightarrow> None | r # _ \<Rightarrow> Some r)"

section \<open>extractMeaningsDirectly\<close>

text \<open>
  \<^verbatim>\<open>text.match(/\b(n|v|a|adv|num|p|pron)\b/)\<close>. Every alternative is made of word
  characters and stands between two word boundaries, so a match is a maximal run of word
  characters that is one of the seven codes: the leftmost such run.
\<close>

definition classMatch :: "jstring \<Rightarrow> jstring option" where
  "classMatch s =
     find (\<lambda>w. w \<in> set [js ''n'', js ''v'', js ''a'', js ''adv'', js ''num'', js ''p'', js ''pron''])
       (wordRuns s)"

text \<open>The \<^verbatim>\<open>switch (code)\<close> of the plain-text branch.\<close>

definition plainClassName :: "jstring \<Rightarrow> jstring" where
  "plainClassName code =
     (if code = js ''n'' then js ''Nomina''
      else if code = js ''v'' then js ''Verba''
      else if code = js ''a'' then js ''Adjektiva''
      else if code = js ''adv'' then js ''Adverbia''
      else if code = js ''num'' then js ''Numeralia''
      else if code = js ''p'' then js ''Partikel''
      else if code = js ''pron'' then js ''Pronomina''
      else [])"

text \<open>
  The branch for an entry without a list: the text of the siblings up to the next heading,
  one leading class token detected, removed from the text by
  \<^verbatim>\<open>text.replace(classMatch[0], '').trim()\<close>, and one meaning with what is left.
\<close>

definition plainTextMeanings :: "sibling_view list \<Rightarrow> meaning list" where
  "plainTextMeanings content =
     (let txt0 = trim (concat (map (\<lambda>el.
                   if sib_tag el = ''h4'' \<or> sib_tag el = ''br'' then [] else trim (sib_text el) @ [32])
                   content))
      in if txt0 \<noteq> [] \<and> \<not> str_includes txt0 usulkanMaknaBaru
         then (case classMatch txt0 of
                 Some code \<Rightarrow>
                   [\<lparr>nomor = Some (NomorStr (js ''1'')),
                     kelasKata = (if plainClassName code \<noteq> []
                                  then [\<lparr>kode = code, nama = plainClassName code\<rparr>] else []),
                     definisi = trim (removeFirst code txt0), contoh = [], kiasan = None\<rparr>]
               | None \<Rightarrow>
                   [\<lparr>nomor = Some (NomorStr (js ''1'')), kelasKata = [],
                     definisi = txt0, contoh = [], kiasan = None\<rparr>])
         else [])"

definition extractMeaningsDirectly :: "heading_view \<Rightarrow> meaning list" where
  "extractMeaningsDirectly h =
     (let ols = filter (\<lambda>el. sib_tag el = ''ol'') (h_next_until h);
          uls = filter (\<lambda>el. sib_tag el = ''ul'') (h_next_until h);
          lists = (if ols \<noteq> [] then ols else uls)
      in case lists of
           el # _ \<Rightarrow> meaningsOfList (sib_items el)
         | [] \<Rightarrow> (if h_next_until h \<noteq> [] then plainTextMeanings (h_next_until h) else []))"

section \<open>extractEtymology and extractRelated\<close>

text \<open>
  \<^verbatim>\<open>htmlContent.match(/Etimologi:<\/b>\s*\[(.*?)\]/i)\<close>, the group of the leftmost match:
  after the label and white space comes an opening bracket, and the lazy group runs to the
  nearest closing bracket, which must come before any line terminator.
\<close>

fun matchEtimologi :: "jstring \<Rightarrow> jstring option" where
  "matchEtimologi [] = None"
| "matchEtimologi (c # cs) =
     (if startsWithCI (js ''Etimologi:</b>'') (c # cs)
      then (case dropWhile isSpace (drop 14 (c # cs)) of
              [] \<Rightarrow> matchEtimologi cs
            | b # body \<Rightarrow>
                if b = 91 \<and> 93 \<in> set body
                   \<and> \<not> list_ex isLineTerminator (takeWhile (\<lambda>x. x \<noteq> 93) body)
                then Some (takeWhile (\<lambda>x. x \<noteq> 93) body)
                else matchEtimologi cs)
      else matchEtimologi cs)"

text \<open>The lazy \<^verbatim>\<open>(.*?)<\/i>\<close>: the text up to the nearest closing tag of an italic.\<close>

fun untilCloseItalic :: "jstring \<Rightarrow> jstring option" where
  "untilCloseItalic [] = None"
| "untilCloseItalic (c # cs) =
     (if startsWithCI (js ''</i>'') (c # cs) then Some []
      else if isLineTerminator c then None
      else map_option (\<lambda>r. c # r) (untilCloseItalic cs))"

text \<open>
  \<^verbatim>\<open>etymologyContent.match(/<i[^>]*color:darkred[^>]*>(.*?)<\/i>/i)\<close>, the group of the
  leftmost match. \<^verbatim>\<open>[^>]*\<close> cannot cross a \<^verbatim>\<open>>\<close>, so the tag ends at the first \<^verbatim>\<open>>\<close> after
  \<^verbatim>\<open><i\<close> and \<^verbatim>\<open>color:darkred\<close> stands before it.
\<close>

fun matchDarkred :: "jstring \<Rightarrow> jstring option" where
  "matchDarkred [] = None"
| "matchDarkred (c # cs) =
     (if startsWithCI (js ''<i'') (c # cs) \<and> 62 \<in> set (drop 2 (c # cs))
         \<and> str_includes (map lowerAscii (takeWhile (\<lambda>x. x \<noteq> 62) (drop 2 (c # cs))))
              (js ''color:darkred'')
      then (case untilCloseItalic (tl (dropWhile (\<lambda>x. x \<noteq> 62) (drop 2 (c # cs)))) of
              Some g \<Rightarrow> Some g
            | None \<Rightarrow> matchDarkred cs)
      else matchDarkred cs)"

definition extractEtymology :: "doc_view \<Rightarrow> etimologi option" where
  "extractEtymology d =
     (case matchEtimologi (d_html d) of
        None \<Rightarrow> None
      | Some m \<Rightarrow>
          if m = [] then None
          else (let etymologyContent = trim m;
                    langs = (case matchDarkred etymologyContent of
                               None \<Rightarrow> []
                             | Some l \<Rightarrow> if l \<noteq> [] then [trim l] else []);
                    cleanText = trim (collapseWs (replaceTags [32] False etymologyContent))
                in Some \<lparr>etim_text = [91] @ cleanText @ [93], languages = langs\<rparr>))"

datatype related_type = KataTurunan | GabunganKata | Peribahasa | Idiom

definition relatedTypeOf :: "jstring \<Rightarrow> related_type option" where
  "relatedTypeOf headingText =
     (if str_includes headingText (js ''Kata Turunan'') then Some KataTurunan
      else if str_includes headingText (js ''Gabungan Kata'') then Some GabunganKata
      else if str_includes headingText (js ''Peribahasa'') then Some Peribahasa
      else if str_includes headingText (js ''Idiom'') then Some Idiom
      else None)"

fun relatedList :: "related_type \<Rightarrow> terkait \<Rightarrow> jstring list" where
  "relatedList KataTurunan r = kataTurunan r"
| "relatedList GabunganKata r = gabunganKata r"
| "relatedList Peribahasa r = peribahasa r"
| "relatedList Idiom r = idiom r"

fun pushRelated :: "related_type \<Rightarrow> jstring \<Rightarrow> terkait \<Rightarrow> terkait" where
  "pushRelated KataTurunan t r = r\<lparr>kataTurunan := kataTurunan r @ [t]\<rparr>"
| "pushRelated GabunganKata t r = r\<lparr>gabunganKata := gabunganKata r @ [t]\<rparr>"
| "pushRelated Peribahasa t r = r\<lparr>peribahasa := peribahasa r @ [t]\<rparr>"
| "pushRelated Idiom t r = r\<lparr>idiom := idiom r @ [t]\<rparr>"

definition addLink :: "related_type \<Rightarrow> terkait \<Rightarrow> jstring \<Rightarrow> terkait" where
  "addLink ty r linkText =
     (let t = trim linkText
      in if t \<noteq> [] \<and> t \<notin> set (relatedList ty r) then pushRelated ty t r else r)"

definition addSection :: "terkait \<Rightarrow> section_view \<Rightarrow> terkait" where
  "addSection r sec =
     (case relatedTypeOf (trim (sec_text sec)) of
        None \<Rightarrow> r
      | Some ty \<Rightarrow> (case sec_links sec of None \<Rightarrow> r | Some links \<Rightarrow> foldl (addLink ty) r links))"

definition extractRelated :: "heading_view \<Rightarrow> terkait option" where
  "extractRelated h =
     (let related = foldl addSection
            \<lparr>kataTurunan = [], gabunganKata = [], peribahasa = [], idiom = []\<rparr> (h_sections h)
      in if kataTurunan related \<noteq> [] \<or> gabunganKata related \<noteq> [] \<or> peribahasa related \<noteq> []
            \<or> idiom related \<noteq> []
         then Some related else None)"

section \<open>parseEntryDirectly and parseEntry\<close>

text \<open>
  \<^verbatim>\<open>entryName.replace(/\s*\u00B9|\u00B2|\u00B3|\u2074|...|\u2079|\u2070/g, '')\<close>. The
  \<^verbatim>\<open>\s*\<close> belongs to the first alternative only: white space is removed where the run it
  stands in ends at a superscript one; the other nine superscripts are removed alone.
\<close>

fun stripSuperscripts :: "jstring \<Rightarrow> jstring" where
  "stripSuperscripts [] = []"
| "stripSuperscripts (c # cs) =
     (if c = 185 then stripSuperscripts cs
      else if isSpace c \<and> dropWhile isSpace cs \<noteq> [] \<and> hd (dropWhile isSpace cs) = 185
      then stripSuperscripts cs
      else if c = 178 \<or> c = 179 \<or> (8308 \<le> c \<and> c \<le> 8313) \<or> c = 8304 then stripSuperscripts cs
      else c # stripSuperscripts cs)"

definition parseEntryDirectly :: "doc_view \<Rightarrow> heading_view \<Rightarrow> entry option" where
  "parseEntryDirectly d h =
     (let entryName = trim (extractText h)
      in if entryName = [] then None
         else
           (let entryId = extractId h;
                homonymNumber = extractNumber h;
                entry0 = [(''id'', (case entryId of None \<Rightarrow> VNull | Some i \<Rightarrow> VStr i)),
                          (''nama'', VStr (stripSuperscripts entryName)),
                          (''nomor'', VStr homonymNumber),
                          (''makna'', VMakna [])];
                entry1 = (case extractEntryType h of
                            None \<Rightarrow> entry0
                          | Some entryType \<Rightarrow>
                              if entryType \<noteq> [] then AList.update ''jenis'' (VStr entryType) entry0
                              else entry0);
                entry2 = (case extractRootWord d h of
                            None \<Rightarrow> entry1
                          | Some rootWord \<Rightarrow>
                              if rootWord \<noteq> [] then AList.update ''rootWord'' (VStr rootWord) entry1
                              else entry1);
                entry3 =
                  (case filter (\<lambda>el. sib_tag el = ''ol'' \<or> sib_tag el = ''ul'') (h_next_until h) of
                     el # _ \<Rightarrow> AList.update ''makna'' (VMakna (meaningsOfList (sib_items el))) entry2
                   | [] \<Rightarrow>
                       (let meanings = extractMeaningsDirectly h
                        in if meanings \<noteq> [] then AList.update ''makna'' (VMakna meanings) entry2
                           else entry2));
                entry4 = (case extractEtymology d of
                            None \<Rightarrow> entry3
                          | Some etymology \<Rightarrow> AList.update ''etimologi'' (VEtimologi etymology) entry3);
                entry5 = (case extractRelated h of
                            None \<Rightarrow> entry4
                          | Some related \<Rightarrow> AList.update ''terkait'' (VTerkait related) entry4)
            in Some entry5))"

text \<open>
  \<^verbatim>\<open>parseEntry\<close>, the reduced extractor of the orchestrator: a heading without an id gives
  \<^verbatim>\<open>null\<close>.
\<close>

definition parseEntry :: "doc_view \<Rightarrow> heading_view \<Rightarrow> entry option" where
  "parseEntry d h =
     (let nama0 = extractText h;
          nomor0 = extractNumber h;
          id0 = extractId h;
          rootWord = extractRootWord d h
      in case id0 of
           None \<Rightarrow> None
         | Some i \<Rightarrow>
             if i = [] then None
             else Some [(''nama'', VStr nama0), (''nomor'', VStr nomor0), (''id'', VStr i),
                        (''rootWord'', (case rootWord of None \<Rightarrow> VNull | Some r \<Rightarrow> VStr r))])"

section \<open>extractCompoundWordMeanings\<close>

text \<open>
  What the source throws. \<open>TypeError\<close> is the error of reading a property of
  \<^verbatim>\<open>undefined\<close>; the others are the \<^verbatim>\<open>throw\<close> statements of \<^verbatim>\<open>lookup\<close> and \<^verbatim>\<open>scrapeWord\<close>.
\<close>

datatype error =
    NoWordProvided
  | FailedToFetchPageContent
  | CloudflareBlockError
  | CloudflareChallengeHeadless
  | TypeError

text \<open>
  \<^verbatim>\<open>s.replace(/^\s*[;:]\s*|\s*[;:]\s*$/, '')\<close>, without the flag \<^verbatim>\<open>g\<close>: one match is
  replaced, the one at the start when there is one, else the one at the end.
\<close>

definition stripEdgeSeparator :: "jstring \<Rightarrow> jstring" where
  "stripEdgeSeparator s =
     (case dropWhile isSpace s of
        [] \<Rightarrow> stripTrailingSeparator s
      | c # r \<Rightarrow> if c = 59 \<or> c = 58 then dropWhile isSpace r else stripTrailingSeparator s)"

text \<open>The body of \<^verbatim>\<open>$ol.find('li').each((i, li) => ...)\<close>.\<close>

definition compoundItem :: "nat \<Rightarrow> li_view \<Rightarrow> meaning list" where
  "compoundItem i li =
     (let txt0 = trim (li_text li)
      in if str_includes txt0 usulkanMaknaBaru then []
         else
           (let wordClasses = extractWordClasses li;
                definitionText1 = foldl (\<lambda>t el. removeFirst (font_text el) t) txt0 (li_red li);
                definitionText2 = trim (stripEdgeSeparator definitionText1);
                hasColon = (58 \<in> set definitionText2);
                examplesText = (if hasColon then trim (afterFirstColon definitionText2) else []);
                definitionText3 =
                  (if hasColon then trim (takeWhile (\<lambda>c. c \<noteq> 58) definitionText2)
                   else definitionText2);
                examples = (if examplesText \<noteq> [] then examplesOf (splitOn 59 examplesText) else [])
            in if definitionText3 \<noteq> []
               then [\<lparr>nomor = Some (NomorNum (i + 1)), kelasKata = wordClasses,
                      definisi = definitionText3, contoh = examples,
                      kiasan = Some (li_ki li > 0)\<rparr>]
               else []))"

text \<open>The body of \<^verbatim>\<open>$container.find('p, div').each(...)\<close>.\<close>

definition blockMeaning :: "meaning list \<Rightarrow> block_view \<Rightarrow> meaning list" where
  "blockMeaning meanings blk =
     (if \<not> blk_after_heading blk then meanings
      else (let txt0 = trim (blk_text blk)
            in if txt0 \<noteq> [] \<and> length txt0 > 5 \<and> \<not> str_includes txt0 usulkanMaknaBaru
               then meanings @ [\<lparr>nomor = Some (NomorNum (length meanings + 1)), kelasKata = [],
                                 definisi = txt0, contoh = [], kiasan = Some False\<rparr>]
               else meanings))"

text \<open>The loop \<^verbatim>\<open>while (nextNode)\<close> over the siblings, which stops at the next \<^verbatim>\<open>h2\<close>.\<close>

fun walkSiblings :: "node_view list \<Rightarrow> meaning list \<Rightarrow> meaning list" where
  "walkSiblings [] meanings = meanings"
| "walkSiblings (TextNode v # ns) meanings =
     (if trim v \<noteq> [] \<and> length (trim v) > 5
      then walkSiblings ns
             (meanings @ [\<lparr>nomor = Some (NomorNum (length meanings + 1)), kelasKata = [],
                            definisi = trim v, contoh = [], kiasan = Some False\<rparr>])
      else walkSiblings ns meanings)"
| "walkSiblings (ElementNode tagName # ns) meanings =
     (if tagName = ''h2'' then meanings else walkSiblings ns meanings)"
| "walkSiblings (OtherNode # ns) meanings = walkSiblings ns meanings"

text \<open>
  The argument is \<^verbatim>\<open>$h2\<close>, a cheerio selection: \<open>None\<close> is the empty selection, on which
  every query is empty and \<^verbatim>\<open>$h2.get(0)\<close> is \<^verbatim>\<open>undefined\<close>, so that
  \<^verbatim>\<open>$h2.get(0).nextSibling\<close> throws.
\<close>

definition extractCompoundWordMeanings :: "heading_view option \<Rightarrow> error + meaning list" where
  "extractCompoundWordMeanings h2 =
     (let ol = (case h2 of
                  None \<Rightarrow> None
                | Some h \<Rightarrow> (case h_next_ol h of Some items \<Rightarrow> Some items | None \<Rightarrow> h_parent_ol h));
          meanings = (case ol of
                        None \<Rightarrow> []
                      | Some items \<Rightarrow> concat (map (\<lambda>(i, li). compoundItem i li) (enumerate 0 items)))
      in if meanings \<noteq> [] then Inr meanings
         else (let meanings2 = foldl blockMeaning [] (case h2 of None \<Rightarrow> [] | Some h \<Rightarrow> h_blocks h)
               in if meanings2 \<noteq> [] then Inr meanings2
                  else (case h2 of
                          None \<Rightarrow> Inl TypeError
                        | Some h \<Rightarrow> Inr (walkSiblings (h_siblings h) []))))"

section \<open>parseDetailsPage\<close>

definition getMakna :: "entry \<Rightarrow> meaning list option" where
  "getMakna result = (case map_of result ''makna'' of Some (VMakna ms) \<Rightarrow> Some ms | _ \<Rightarrow> None)"

text \<open>The truth value JavaScript gives a property that may be absent.\<close>

fun truthy :: "val option \<Rightarrow> bool" where
  "truthy None = False"
| "truthy (Some VNull) = False"
| "truthy (Some (VStr s)) = (s \<noteq> [])"
| "truthy (Some _) = True"

definition updateLast :: "('a \<Rightarrow> 'a) \<Rightarrow> 'a list \<Rightarrow> 'a list" where
  "updateLast f xs = (if xs = [] then [] else butlast xs @ [f (last xs)])"

text \<open>
  \<^verbatim>\<open>value.match(/(.+?)\s*\(Eid:\s*(\d+)\)/)\<close>, the first group of the leftmost match.
  \<open>eidSuffix\<close> is the part after the group; the lazy group is the shortest run of
  characters other than line terminators after which that part matches.
\<close>

definition eidSuffix :: "jstring \<Rightarrow> bool" where
  "eidSuffix s =
     (let s1 = dropWhile isSpace s;
          s2 = dropWhile isSpace (drop 5 s1);
          s3 = dropWhile isDigit s2
      in startsWith (js ''(Eid:'') s1 \<and> takeWhile isDigit s2 \<noteq> [] \<and> s3 \<noteq> [] \<and> hd s3 = 41)"

fun lazyGroup :: "jstring \<Rightarrow> jstring option" where
  "lazyGroup [] = None"
| "lazyGroup (c # cs) =
     (if isLineTerminator c then None
      else if eidSuffix cs then Some [c]
      else map_option (\<lambda>g. c # g) (lazyGroup cs))"

fun matchIndukKata :: "jstring \<Rightarrow> jstring option" where
  "matchIndukKata [] = None"
| "matchIndukKata (c # cs) =
     (case lazyGroup (c # cs) of Some g \<Rightarrow> Some g | None \<Rightarrow> matchIndukKata cs)"

text \<open>
  \<^verbatim>\<open>s.match(/^(\w+)\s+\((.*?)\)$/)\<close>, its two groups: a run of word characters, white
  space, and a parenthesis that closes at the end of the string, with no line terminator
  inside.
\<close>

definition matchCodeName :: "jstring \<Rightarrow> (jstring \<times> jstring) option" where
  "matchCodeName s =
     (let code = takeWhile isWord s;
          s1 = dropWhile isWord s;
          s2 = dropWhile isSpace s1
      in if code \<noteq> [] \<and> takeWhile isSpace s1 \<noteq> [] \<and> s2 \<noteq> [] \<and> hd s2 = 40
            \<and> tl s2 \<noteq> [] \<and> last (tl s2) = 41
            \<and> \<not> list_ex isLineTerminator (butlast (tl s2))
         then Some (code, butlast (tl s2))
         else None)"

definition parseKelasKata :: "jstring \<Rightarrow> wordclass list" where
  "parseKelasKata v =
     (case matchCodeName v of
        Some (k, n) \<Rightarrow> [\<lparr>kode = k, nama = n\<rparr>]
      | None \<Rightarrow>
          map (\<lambda>cls. case matchCodeName (trim cls) of
                        Some (k, n) \<Rightarrow> \<lparr>kode = k, nama = n\<rparr>
                      | None \<Rightarrow> \<lparr>kode = trim cls, nama = []\<rparr>)
            (splitOn 44 v))"

text \<open>The body of \<^verbatim>\<open>this.$('.row').each((i, row) => ...)\<close>, on the object \<^verbatim>\<open>result\<close>.\<close>

definition rowStep :: "entry \<Rightarrow> row_view \<Rightarrow> entry" where
  "rowStep result row =
     (let label = trim (row_label row); v = trim (row_data row)
      in if v = [] \<or> v = js ''(Tidak tersedia)'' then result
         else if label = js ''Eid'' then AList.update ''id'' (VStr v) result
         else if label = js ''Entri'' then AList.update ''nama'' (VStr v) result
         else if label = js ''Id Homonim'' then AList.update ''nomor'' (VStr v) result
         else if label = js ''Jenis Entri'' then AList.update ''jenis'' (VStr v) result
         else if label = js ''Induk Kata''
         then (case matchIndukKata v of
                 Some g \<Rightarrow> AList.update ''rootWord'' (VStr (trim g)) result
               | None \<Rightarrow> AList.update ''rootWord'' (VStr v) result)
         else if label = js ''Makna''
         then AList.update ''makna''
                (VMakna ((case getMakna result of None \<Rightarrow> [] | Some ms \<Rightarrow> ms)
                         @ [\<lparr>nomor = None, kelasKata = [], definisi = v, contoh = [],
                              kiasan = None\<rparr>]))
                result
         else if label = js ''Kelas Kata''
         then (case getMakna result of
                 None \<Rightarrow> result
               | Some ms \<Rightarrow>
                   if ms = [] then result
                   else AList.update ''makna''
                          (VMakna (updateLast (\<lambda>lastMakna. lastMakna\<lparr>kelasKata := parseKelasKata v\<rparr>) ms))
                          result)
         else if label = js ''Contoh''
         then (case getMakna result of
                 None \<Rightarrow> result
               | Some ms \<Rightarrow>
                   if ms = [] then result
                   else AList.update ''makna''
                          (VMakna (updateLast (\<lambda>lastMakna. lastMakna\<lparr>contoh := contoh lastMakna
                              @ [\<lparr>contoh_nomor = length (contoh lastMakna) + 1, teks = v\<rparr>]\<rparr>) ms))
                          result)
         else result)"

text \<open>\<^verbatim>\<open>text.match(/Contoh #(\d+)-(\d+)/)\<close>, the two groups of the leftmost match.\<close>

fun matchContoh :: "jstring \<Rightarrow> (jstring \<times> jstring) option" where
  "matchContoh [] = None"
| "matchContoh (c # cs) =
     (let r = drop 8 (c # cs); r1 = dropWhile isDigit r
      in if startsWith (js ''Contoh #'') (c # cs) \<and> takeWhile isDigit r \<noteq> [] \<and> r1 \<noteq> []
            \<and> hd r1 = 45 \<and> takeWhile isDigit (tl r1) \<noteq> []
         then Some (takeWhile isDigit r, takeWhile isDigit (tl r1))
         else matchContoh cs)"

text \<open>\<^verbatim>\<open>meaning.contoh[existingIndex].teks = cleanedText\<close> at the first example numbered \<open>n\<close>.\<close>

fun setTeks :: "nat \<Rightarrow> jstring \<Rightarrow> example list \<Rightarrow> example list" where
  "setTeks n t [] = []"
| "setTeks n t (e # es) =
     (if contoh_nomor e = n then e\<lparr>teks := t\<rparr> # es else e # setTeks n t es)"

text \<open>
  The body of the loop over the \<^verbatim>\<open>h4\<close> elements whose text starts with \<^verbatim>\<open>Contoh #\<close>. For
  \<^verbatim>\<open>Contoh #0-N\<close> the object \<^verbatim>\<open>result.makna[meaningNum - 1]\<close> is \<^verbatim>\<open>undefined\<close> and
  \<^verbatim>\<open>meaning.contoh\<close> throws.
\<close>

definition contohSection :: "entry \<Rightarrow> h4_view \<Rightarrow> error + entry" where
  "contohSection result h4 =
     (if \<not> startsWith (js ''Contoh #'') (trim (h4_text h4)) then Inr result
      else
        (case matchContoh (h4_text h4) of
           None \<Rightarrow> Inr result
         | Some (g1, g2) \<Rightarrow>
             (let meaningNum = parseIntDigits g1; exampleNum = parseIntDigits g2
              in case getMakna result of
                   None \<Rightarrow> Inr result
                 | Some makna \<Rightarrow>
                     if meaningNum > length makna then Inr result
                     else if meaningNum = 0 then Inl TypeError
                     else
                       (let m = makna ! (meaningNum - 1);
                            exampleText =
                              (case find (\<lambda>row. trim (row_label row) = js ''Contoh'') (h4_rows h4) of
                                 None \<Rightarrow> []
                               | Some row \<Rightarrow> trim (row_data row))
                        in if exampleText \<noteq> [] \<and> exampleText \<noteq> js ''(Tidak tersedia)''
                           then
                             (let cleanedText = trim (stripBrackets False exampleText);
                                  contoh2 =
                                    (if list_ex (\<lambda>ex. contoh_nomor ex = exampleNum) (contoh m)
                                     then setTeks exampleNum cleanedText (contoh m)
                                     else contoh m @ [\<lparr>contoh_nomor = exampleNum, teks = cleanedText\<rparr>])
                              in Inr (AList.update ''makna''
                                        (VMakna (makna[meaningNum - 1 := m\<lparr>contoh := contoh2\<rparr>]))
                                        result))
                           else Inr result))))"

text \<open>A loop whose body may throw: the first error ends it.\<close>

fun foldThrow :: "('a \<Rightarrow> 'b \<Rightarrow> error + 'a) \<Rightarrow> 'a \<Rightarrow> 'b list \<Rightarrow> error + 'a" where
  "foldThrow f a [] = Inr a"
| "foldThrow f a (x # xs) = (case f a x of Inl e \<Rightarrow> Inl e | Inr a2 \<Rightarrow> foldThrow f a2 xs)"

text \<open>The root word of the title, when the rows gave none.\<close>

definition titleRootWord :: "doc_view \<Rightarrow> entry \<Rightarrow> entry" where
  "titleRootWord d result =
     (if truthy (map_of result ''rootWord'') then result
      else (case d_title_rootword d of
              None \<Rightarrow> result
            | Some lnk \<Rightarrow>
                AList.update ''rootWord''
                  (VStr (trim (link_text lnk)
                         @ (case link_sup lnk of None \<Rightarrow> [] | Some s \<Rightarrow> toSuperscript (trim s))))
                  result))"

text \<open>
  The special handling of compound words: the name has a space, and there is no meaning,
  or none with a definition other than the arrow (U+2192).
\<close>

definition needsCompound :: "entry \<Rightarrow> bool" where
  "needsCompound result =
     ((case map_of result ''nama'' of Some (VStr n) \<Rightarrow> n \<noteq> [] \<and> 32 \<in> set n | _ \<Rightarrow> False)
      \<and> (case getMakna result of
            None \<Rightarrow> True
          | Some ms \<Rightarrow> ms = [] \<or> list_all (\<lambda>m. definisi m = [] \<or> definisi m = [8594]) ms))"

definition parseDetailsPage :: "doc_view \<Rightarrow> error + entry option" where
  "parseDetailsPage d =
     (case foldThrow contohSection (foldl rowStep [] (d_rows d)) (d_h4 d) of
        Inl e \<Rightarrow> Inl e
      | Inr result2 \<Rightarrow>
          (let result3 = titleRootWord d result2
           in if needsCompound result3
              then (case extractCompoundWordMeanings (d_first_h2 d) of
                      Inl e \<Rightarrow> Inl e
                    | Inr compoundMeanings \<Rightarrow>
                        Inr (let result4 = (if compoundMeanings \<noteq> []
                                            then AList.update ''makna'' (VMakna compoundMeanings) result3
                                            else result3)
                             in if result4 \<noteq> [] then Some result4 else None))
              else Inr (if result3 \<noteq> [] then Some result3 else None)))"

section \<open>parseMirip, checkAuthentication and parseEntries\<close>

definition parseMirip :: "doc_view \<Rightarrow> jstring list" where
  "parseMirip d =
     filter (\<lambda>t. t \<noteq> []) (map trim (d_col_md_3 d))
     @ filter (\<lambda>t. t \<noteq> []) (map trim (d_daftar_selaras d))"

definition checkAuthentication :: "doc_view \<Rightarrow> bool" where
  "checkAuthentication d = (d_keluar_links d > 0 \<or> d_keluar_buttons d > 0)"

text \<open>
  What \<^verbatim>\<open>parseEntries\<close> returns: \<^verbatim>\<open>{ entries, mirip }\<close> when the word is not found,
  \<^verbatim>\<open>{ entries }\<close> otherwise; the absent \<^verbatim>\<open>mirip\<close> is \<open>None\<close>.
\<close>

record parse_result =
  pr_entries :: "entry list"
  pr_mirip :: "jstring list option"

definition parseEntries :: "doc_view \<Rightarrow> error + parse_result" where
  "parseEntries d =
     (if d_entry_headings d = [] \<and> d_not_found d > 0
      then Inr \<lparr>pr_entries = [], pr_mirip = Some (parseMirip d)\<rparr>
      else if d_detail_data d > 0
      then (case parseDetailsPage d of
              Inl e \<Rightarrow> Inl e
            | Inr None \<Rightarrow> Inr \<lparr>pr_entries = [], pr_mirip = None\<rparr>
            | Inr (Some e) \<Rightarrow> Inr \<lparr>pr_entries = [e], pr_mirip = None\<rparr>)
      else Inr \<lparr>pr_entries = List.map_filter (parseEntryDirectly d) (d_entry_headings d),
                pr_mirip = None\<rparr>)"

section \<open>The collaborators and the two operations: lookup and scrapeWord\<close>

text \<open>
  The two addresses the operations build: \<^verbatim>\<open>Utils.buildUrl(word)\<close>, the entry page of a
  word, and the details page of an entry id
  (\<^verbatim>\<open>https://kbbi.kemdikbud.go.id/DataDasarEntri/Details?eid=${entry.id}\<close>).
\<close>

datatype url = EntriUrl jstring | DetailsUrl jstring

text \<open>
  The browser is a collaborator outside the repository. \<open>navigateTo\<close> is the page a fetch
  gives, parsed by \<^verbatim>\<open>cheerio.load\<close>, or \<open>None\<close> when \<^verbatim>\<open>navigateTo\<close> gives no HTML (\<^verbatim>\<open>null\<close> or
  the empty string). Every fetch runs in a browser of its own, and the answer may differ
  from one call to the next: the first argument is the number of fetches made before.
  \<open>checkCloudflare\<close> is the answer of \<^verbatim>\<open>this.browser.checkCloudflare()\<close> after the first
  fetch, \<open>headless\<close> the option of that name. The collaborators are taken to return: an
  exception of theirs is not modelled.
\<close>

record env =
  navigateTo :: "nat \<Rightarrow> url \<Rightarrow> doc_view option"
  checkCloudflare :: bool
  headless :: bool

text \<open>The result of both operations; \<open>mirip\<close> is \<open>None\<close> when the key is \<^verbatim>\<open>undefined\<close>.\<close>

record scrape_result =
  word :: jstring
  authenticated :: bool
  entries :: "entry list"
  mirip :: "jstring list option"

text \<open>\<^verbatim>\<open>KBBI.lookup\<close>.\<close>

definition lookup :: "env \<Rightarrow> jstring \<Rightarrow> error + scrape_result" where
  "lookup env w =
     (if w = [] then Inl NoWordProvided
      else (case navigateTo env 0 (EntriUrl w) of
              None \<Rightarrow> Inl FailedToFetchPageContent
            | Some html \<Rightarrow>
                if checkCloudflare env \<and> headless env then Inl CloudflareBlockError
                else (case parseEntries html of
                        Inl e \<Rightarrow> Inl e
                      | Inr r \<Rightarrow>
                          Inr \<lparr>word = w, authenticated = checkAuthentication html,
                               entries = pr_entries r, mirip = pr_mirip r\<rparr>)))"

definition idOf :: "entry \<Rightarrow> jstring" where
  "idOf entry = (case map_of entry ''id'' of Some (VStr i) \<Rightarrow> i | _ \<Rightarrow> [])"

text \<open>
  One round of \<^verbatim>\<open>for (const entry of entries)\<close> for an entry with an id: the entry to push
  on \<^verbatim>\<open>detailedEntries\<close>. \<open>n\<close> is the number of fetches made before.
\<close>

definition fetchDetails :: "env \<Rightarrow> nat \<Rightarrow> entry \<Rightarrow> error + entry" where
  "fetchDetails env n entry =
     (case navigateTo env n (DetailsUrl (idOf entry)) of
        None \<Rightarrow> Inr entry
      | Some detailsHtml \<Rightarrow>
          (case parseDetailsPage detailsHtml of
             Inl e \<Rightarrow> Inl e
           | Inr details \<Rightarrow> Inr (spread entry (case details of None \<Rightarrow> [] | Some dt \<Rightarrow> dt))))"

text \<open>Phase 2, the loop over the stubs, with \<^verbatim>\<open>detailedEntries\<close> as accumulator.\<close>

fun detailLoop :: "env \<Rightarrow> nat \<Rightarrow> entry list \<Rightarrow> entry list \<Rightarrow> error + entry list" where
  "detailLoop env n detailedEntries [] = Inr detailedEntries"
| "detailLoop env n detailedEntries (entry # rest) =
     (if \<not> truthy (map_of entry ''id'') then detailLoop env n detailedEntries rest
      else (case fetchDetails env n entry of
              Inl e \<Rightarrow> Inl e
            | Inr mergedEntry \<Rightarrow> detailLoop env (Suc n) (detailedEntries @ [mergedEntry]) rest))"

text \<open>\<^verbatim>\<open>KBBIScraper.scrapeWord\<close>.\<close>

definition scrapeWord :: "env \<Rightarrow> jstring \<Rightarrow> error + scrape_result" where
  "scrapeWord env w =
     (if w = [] then Inl NoWordProvided
      else (case navigateTo env 0 (EntriUrl w) of
              None \<Rightarrow> Inl FailedToFetchPageContent
            | Some html \<Rightarrow>
                if checkCloudflare env \<and> headless env then Inl CloudflareChallengeHeadless
                else
                  (let stubs = List.map_filter (parseEntry html) (d_entry_headings html);
                       mirip0 = parseMirip html
                   in if stubs = []
                      then Inr \<lparr>word = w, authenticated = checkAuthentication html,
                                entries = [], mirip = Some mirip0\<rparr>
                      else (case detailLoop env 1 [] stubs of
                              Inl e \<Rightarrow> Inl e
                            | Inr detailedEntries \<Rightarrow>
                                Inr \<lparr>word = w, authenticated = checkAuthentication html,
                                     entries = detailedEntries, mirip = Some mirip0\<rparr>))))"

section \<open>Notions of the specification\<close>

text \<open>
  The fixed table of the specification (section 4.2, WordClasses), to compare the
  \<^verbatim>\<open>switch\<close> with.
\<close>

definition wordClassTable :: "(jstring \<times> jstring) list" where
  "wordClassTable =
     [(js ''n'', js ''Nomina''), (js ''v'', js ''Verba''), (js ''a'', js ''Adjektiva''),
      (js ''adv'', js ''Adverbia''), (js ''num'', js ''Numeralia''), (js ''p'', js ''Partikel''),
      (js ''pron'', js ''Pronomina''), (js ''ki'', js ''kiasan''), (js ''Jp'', js ''Jepang''),
      (js ''sing'', js ''singkatan''), (js ''Komp'', js ''Komputer''),
      (js ''Prw'', js ''Pariwisata''), (js ''Kap'', js ''Perkapalan'')]"

text \<open>A retained list item: one whose text does not hold the marker (section 4.3).\<close>

definition retained :: "li_view \<Rightarrow> bool" where
  "retained li = (\<not> str_includes (li_text li) usulkanMaknaBaru)"

text \<open>
  The three classes of a document (section 4.1) and what \<^verbatim>\<open>parseEntries\<close> returns for a
  document treated as one of each: the detail-page path, empty entries with the
  suggestions, the per-heading parse.
\<close>

datatype doc_class = EntryDetail | NotFound | SearchResults

fun parseAs :: "doc_class \<Rightarrow> doc_view \<Rightarrow> error + parse_result" where
  "parseAs EntryDetail d =
     (case parseDetailsPage d of
        Inl e \<Rightarrow> Inl e
      | Inr None \<Rightarrow> Inr \<lparr>pr_entries = [], pr_mirip = None\<rparr>
      | Inr (Some e) \<Rightarrow> Inr \<lparr>pr_entries = [e], pr_mirip = None\<rparr>)"
| "parseAs NotFound d = Inr \<lparr>pr_entries = [], pr_mirip = Some (parseMirip d)\<rparr>"
| "parseAs SearchResults d =
     Inr \<lparr>pr_entries = List.map_filter (parseEntryDirectly d) (d_entry_headings d),
          pr_mirip = None\<rparr>"

text \<open>The priority order as the specification words it: the details marker first.\<close>

definition classify_spec :: "doc_view \<Rightarrow> doc_class" where
  "classify_spec d =
     (if d_detail_data d > 0 then EntryDetail
      else if d_entry_headings d = [] \<and> d_not_found d > 0 then NotFound
      else SearchResults)"

text \<open>The priority order with the two tests exchanged: the not-found test first.\<close>

definition classify_not_found_first :: "doc_view \<Rightarrow> doc_class" where
  "classify_not_found_first d =
     (if d_entry_headings d = [] \<and> d_not_found d > 0 then NotFound
      else if d_detail_data d > 0 then EntryDetail
      else SearchResults)"

text \<open>
  A row of a details page that populates a field (section 4.4): its value is neither
  empty nor the placeholder, and its label is one of the six that set a key of the entry.
  (\<^verbatim>\<open>Kelas Kata\<close> and \<^verbatim>\<open>Contoh\<close> only change a meaning that a \<^verbatim>\<open>Makna\<close> row has made.)
\<close>

definition populates :: "row_view \<Rightarrow> bool" where
  "populates row =
     (trim (row_data row) \<noteq> [] \<and> trim (row_data row) \<noteq> js ''(Tidak tersedia)''
      \<and> trim (row_label row) \<in> set [js ''Eid'', js ''Entri'', js ''Id Homonim'',
            js ''Jenis Entri'', js ''Induk Kata'', js ''Makna''])"

section \<open>Concrete documents\<close>

text \<open>
  The documents the theorems below are evaluated on. Every field holds what its query
  gives on the HTML quoted with the document.

  The document with an empty body.
\<close>

definition emptyDoc :: doc_view where
  "emptyDoc =
     \<lparr>d_entry_headings = [], d_not_found = 0, d_detail_data = 0, d_col_md_3 = [],
      d_daftar_selaras = [], d_keluar_links = 0, d_keluar_buttons = 0, d_kata_dasar = [],
      d_html = js ''<html><head></head><body></body></html>'', d_rows = [], d_h4 = [],
      d_title_rootword = None, d_first_h2 = None\<rparr>"

text \<open>
  \<^verbatim>\<open><li>t</li>\<close>, an item that holds a text and no element, and
  \<^verbatim>\<open><h2 style="margin-bottom:3px">name</h2>\<close>, a heading that holds a text and no element,
  with nothing beside it under its parent.
\<close>

definition textItem :: "jstring \<Rightarrow> li_view" where
  "textItem t =
     \<lparr>li_text = t, li_titled_spans = [], li_red = [], li_def_text = t, li_grey = [], li_ki = 0\<rparr>"

definition bareHeading :: "jstring \<Rightarrow> heading_view" where
  "bareHeading name =
     \<lparr>h_italic = None, h_own_text = name, h_sup = None, h_edit_href = None,
      h_view_href = None, h_parent_href = None, h_small = None, h_rootword = None,
      h_next_until = [], h_sections = [], h_next_ol = None, h_parent_ol = None,
      h_blocks = [], h_siblings = []\<rparr>"

text \<open>
  A search page with one entry and its list:
  \<^verbatim>\<open><h2 style="margin-bottom:3px">cinta</h2><ol><li>arti</li><li>Usulkan makna baru</li></ol>\<close>.
  The heading has no link, hence no id.
\<close>

definition cintaItems :: "li_view list" where
  "cintaItems = [textItem (js ''arti''), textItem (js ''Usulkan makna baru'')]"

definition cintaHeading :: heading_view where
  "cintaHeading =
     (bareHeading (js ''cinta''))
       \<lparr>h_next_until := [\<lparr>sib_tag = ''ol'', sib_text = js ''artiUsulkan makna baru'',
                            sib_items = cintaItems\<rparr>],
        h_next_ol := Some cintaItems, h_parent_ol := Some cintaItems,
        h_siblings := [ElementNode ''ol'']\<rparr>"

definition cintaDoc :: doc_view where
  "cintaDoc =
     emptyDoc
       \<lparr>d_entry_headings := [cintaHeading],
        d_html := js ''<html><head></head><body><h2 style='' @ [34] @ js ''margin-bottom:3px''
                  @ [34] @ js ''>cinta</h2><ol><li>arti</li><li>Usulkan makna baru</li></ol>''
                  @ js ''</body></html>'',
        d_first_h2 := Some cintaHeading\<rparr>"

text \<open>
  A search page whose entry has no list, only a paragraph that holds a class code and
  nothing else: \<^verbatim>\<open><h2 style="margin-bottom:3px">en</h2><p>n</p>\<close>.
\<close>

definition enHeading :: heading_view where
  "enHeading =
     (bareHeading (js ''en''))
       \<lparr>h_next_until := [\<lparr>sib_tag = ''p'', sib_text = js ''n'', sib_items = []\<rparr>],
        h_blocks := [\<lparr>blk_after_heading = True, blk_text = js ''n''\<rparr>],
        h_siblings := [ElementNode ''p'']\<rparr>"

definition enDoc :: doc_view where
  "enDoc =
     emptyDoc
       \<lparr>d_entry_headings := [enHeading],
        d_html := js ''<html><head></head><body><h2 style='' @ [34] @ js ''margin-bottom:3px''
                  @ [34] @ js ''>en</h2><p>n</p></body></html>'',
        d_first_h2 := Some enHeading\<rparr>"

text \<open>
  A search page whose heading holds the superscript one (U+00B9) and nothing else:
  \<^verbatim>\<open><h2 style="margin-bottom:3px">&#xb9;</h2>\<close>. The parsed document holds the character, and
  \<^verbatim>\<open>$.html()\<close> writes it as such.
\<close>

definition superscriptHeading :: heading_view where
  "superscriptHeading = bareHeading [185]"

definition superscriptDoc :: doc_view where
  "superscriptDoc =
     emptyDoc
       \<lparr>d_entry_headings := [superscriptHeading],
        d_html := js ''<html><head></head><body><h2 style='' @ [34] @ js ''margin-bottom:3px''
                  @ [34] @ js ''>'' @ [185] @ js ''</h2></body></html>'',
        d_first_h2 := Some superscriptHeading\<rparr>"

text \<open>
  A search page with two entries, each with an edit link that holds its id:
  \<^verbatim>\<open><h2 style="margin-bottom:3px">cinta<a href="/DataDasarEntri/Edit?eid=1">sunting</a></h2>\<close>
  \<^verbatim>\<open><h2 style="margin-bottom:3px">kata<a href="/DataDasarEntri/Edit?eid=2">sunting</a></h2>\<close>.
\<close>

definition stubHeading1 :: heading_view where
  "stubHeading1 =
     (bareHeading (js ''cinta''))
       \<lparr>h_edit_href := Some (js ''/DataDasarEntri/Edit?eid=1''),
        h_siblings := [ElementNode ''h2'']\<rparr>"

definition stubHeading2 :: heading_view where
  "stubHeading2 =
     (bareHeading (js ''kata''))\<lparr>h_edit_href := Some (js ''/DataDasarEntri/Edit?eid=2'')\<rparr>"

definition twoStubsDoc :: doc_view where
  "twoStubsDoc =
     emptyDoc
       \<lparr>d_entry_headings := [stubHeading1, stubHeading2],
        d_html := js ''<html><head></head><body><h2 style='' @ [34] @ js ''margin-bottom:3px''
                  @ [34] @ js ''>cinta<a href='' @ [34] @ js ''/DataDasarEntri/Edit?eid=1''
                  @ [34] @ js ''>sunting</a></h2><h2 style='' @ [34] @ js ''margin-bottom:3px''
                  @ [34] @ js ''>kata<a href='' @ [34] @ js ''/DataDasarEntri/Edit?eid=2''
                  @ [34] @ js ''>sunting</a></h2></body></html>'',
        d_first_h2 := Some stubHeading1\<rparr>"

text \<open>The two stubs \<^verbatim>\<open>parseEntry\<close> makes of these headings.\<close>

definition stub1 :: entry where
  "stub1 = [(''nama'', VStr (js ''cinta'')), (''nomor'', VStr []), (''id'', VStr (js ''1'')),
            (''rootWord'', VNull)]"

definition stub2 :: entry where
  "stub2 = [(''nama'', VStr (js ''kata'')), (''nomor'', VStr []), (''id'', VStr (js ''2'')),
            (''rootWord'', VNull)]"

text \<open>
  The details page of the entry 1: a title and four rows,
  \<^verbatim>\<open><div class="page-header"><h2>Detail Data</h2></div>\<close> and, for each of
  \<^verbatim>\<open>Eid\<close>/\<^verbatim>\<open>1\<close>, \<^verbatim>\<open>Entri\<close>/\<^verbatim>\<open>cinta\<close>, \<^verbatim>\<open>Makna\<close>/\<^verbatim>\<open>suka sekali\<close>,
  \<^verbatim>\<open>Kelas Kata\<close>/\<^verbatim>\<open>a (Adjektiva)\<close>, a row
  \<^verbatim>\<open><div class="row"><div class="col-md-2"><b>label</b></div><div class="col-md-10">value</div></div>\<close>.
\<close>

definition detailRow :: "string \<Rightarrow> string \<Rightarrow> row_view" where
  "detailRow label v = \<lparr>row_label = js label, row_data = js v\<rparr>"

definition rowBlocks :: "string \<Rightarrow> string \<Rightarrow> block_view list" where
  "rowBlocks label v =
     [\<lparr>blk_after_heading = False, blk_text = js label @ js v\<rparr>,
      \<lparr>blk_after_heading = False, blk_text = js label\<rparr>,
      \<lparr>blk_after_heading = False, blk_text = js v\<rparr>]"

definition rowHtml :: "string \<Rightarrow> string \<Rightarrow> jstring" where
  "rowHtml label v =
     js ''<div class='' @ [34] @ js ''row'' @ [34] @ js ''><div class='' @ [34] @ js ''col-md-2''
     @ [34] @ js ''><b>'' @ js label @ js ''</b></div><div class='' @ [34] @ js ''col-md-10''
     @ [34] @ js ''>'' @ js v @ js ''</div></div>''"

definition titleHtml :: jstring where
  "titleHtml =
     js ''<div class='' @ [34] @ js ''page-header'' @ [34] @ js ''><h2>Detail Data</h2></div>''"

definition cintaTitle :: heading_view where
  "cintaTitle =
     (bareHeading (js ''Detail Data''))
       \<lparr>h_blocks := \<lparr>blk_after_heading = False, blk_text = js ''Detail Data''\<rparr>
                    # rowBlocks ''Eid'' ''1'' @ rowBlocks ''Entri'' ''cinta''
                    @ rowBlocks ''Makna'' ''suka sekali''
                    @ rowBlocks ''Kelas Kata'' ''a (Adjektiva)''\<rparr>"

definition cintaDetails :: doc_view where
  "cintaDetails =
     emptyDoc
       \<lparr>d_detail_data := 1,
        d_html := js ''<html><head></head><body>'' @ titleHtml @ rowHtml ''Eid'' ''1''
                  @ rowHtml ''Entri'' ''cinta'' @ rowHtml ''Makna'' ''suka sekali''
                  @ rowHtml ''Kelas Kata'' ''a (Adjektiva)'' @ js ''</body></html>'',
        d_rows := [detailRow ''Eid'' ''1'', detailRow ''Entri'' ''cinta'',
                   detailRow ''Makna'' ''suka sekali'', detailRow ''Kelas Kata'' ''a (Adjektiva)''],
        d_first_h2 := Some cintaTitle\<rparr>"

text \<open>
  A page that holds both markers and no entry heading: the title of a details page, one
  row, and the not-found message,
  \<^verbatim>\<open><div class="page-header"><h2>Detail Data</h2></div>\<close>, the row \<^verbatim>\<open>Entri\<close>/\<^verbatim>\<open>cinta\<close>, and
  \<^verbatim>\<open><div>Entri tidak ditemukan</div>\<close>.
\<close>

definition bothTitle :: heading_view where
  "bothTitle =
     (bareHeading (js ''Detail Data''))
       \<lparr>h_blocks := \<lparr>blk_after_heading = False, blk_text = js ''Detail Data''\<rparr>
                    # rowBlocks ''Entri'' ''cinta''
                    @ [\<lparr>blk_after_heading = False, blk_text = js ''Entri tidak ditemukan''\<rparr>]\<rparr>"

definition bothDoc :: doc_view where
  "bothDoc =
     emptyDoc
       \<lparr>d_not_found := 1, d_detail_data := 1,
        d_html := js ''<html><head></head><body>'' @ titleHtml @ rowHtml ''Entri'' ''cinta''
                  @ js ''<div>Entri tidak ditemukan</div></body></html>'',
        d_rows := [detailRow ''Entri'' ''cinta''],
        d_first_h2 := Some bothTitle\<rparr>"

text \<open>
  A search page with one entry that has an id, and one suggestion beside it:
  \<^verbatim>\<open><h2 style="margin-bottom:3px">cinta<a href="/DataDasarEntri/Edit?eid=1">sunting</a></h2>\<close>
  \<^verbatim>\<open><div class="col-md-3">cita</div>\<close>.
\<close>

definition miripHeading :: heading_view where
  "miripHeading =
     (bareHeading (js ''cinta''))
       \<lparr>h_edit_href := Some (js ''/DataDasarEntri/Edit?eid=1''),
        h_next_until := [\<lparr>sib_tag = ''div'', sib_text = js ''cita'', sib_items = []\<rparr>],
        h_blocks := [\<lparr>blk_after_heading = True, blk_text = js ''cita''\<rparr>],
        h_siblings := [ElementNode ''div'']\<rparr>"

definition miripDoc :: doc_view where
  "miripDoc =
     emptyDoc
       \<lparr>d_entry_headings := [miripHeading], d_col_md_3 := [js ''cita''],
        d_html := js ''<html><head></head><body><h2 style='' @ [34] @ js ''margin-bottom:3px''
                  @ [34] @ js ''>cinta<a href='' @ [34] @ js ''/DataDasarEntri/Edit?eid=1''
                  @ [34] @ js ''>sunting</a></h2><div class='' @ [34] @ js ''col-md-3'' @ [34]
                  @ js ''>cita</div></body></html>'',
        d_first_h2 := Some miripHeading\<rparr>"

text \<open>
  A page for a word that is not found, with two suggestions:
  \<^verbatim>\<open><div>Entri tidak ditemukan</div><div class="col-md-3">cita</div>\<close>
  \<^verbatim>\<open><div class="col-md-3">cinta</div>\<close>.
\<close>

definition notFoundDoc :: doc_view where
  "notFoundDoc =
     emptyDoc
       \<lparr>d_not_found := 1, d_col_md_3 := [js ''cita'', js ''cinta''],
        d_html := js ''<html><head></head><body><div>Entri tidak ditemukan</div><div class=''
                  @ [34] @ js ''col-md-3'' @ [34] @ js ''>cita</div><div class='' @ [34]
                  @ js ''col-md-3'' @ [34] @ js ''>cinta</div></body></html>''\<rparr>"

text \<open>The first stub with the details of the page \<open>cintaDetails\<close> merged onto it.\<close>

definition mergedCinta :: entry where
  "mergedCinta =
     [(''nama'', VStr (js ''cinta'')), (''nomor'', VStr []), (''id'', VStr (js ''1'')),
      (''rootWord'', VNull),
      (''makna'', VMakna [\<lparr>nomor = None,
                            kelasKata = [\<lparr>kode = js ''a'', nama = js ''Adjektiva''\<rparr>],
                            definisi = js ''suka sekali'', contoh = [], kiasan = None\<rparr>])]"


text \<open>
  The collaborators of the examples: a browser that serves one page for the word and one
  page for each id of a list, and gives no HTML for any other address.
\<close>

definition serving :: "doc_view \<Rightarrow> (jstring \<times> doc_view) list \<Rightarrow> bool \<Rightarrow> env" where
  "serving page details cf =
     \<lparr>navigateTo = (\<lambda>n u. case u of EntriUrl w \<Rightarrow> Some page | DetailsUrl i \<Rightarrow> map_of details i),
      checkCloudflare = cf, headless = True\<rparr>"

section \<open>Evaluation on concrete inputs\<close>

text \<open>The equations that evaluate the definitions on a concrete input.\<close>

lemmas string_defs = js_def trim_def isSpace_def isDigit_def isWord_def isLineTerminator_def
  startsWith_def startsWithCI_def lowerAscii_def usulkanMaknaBaru_def Let_def

lemmas extractor_defs = extractText_def extractNumber_def extractId_def extractEntryType_def
  extractRootWord_def extractEtymology_def extractRelated_def extractDefinition_def
  extractExamples_def extractWordClasses_def extractWordClasses_method1_def
  extractWordClasses_method2_def stripLeadingColon_def stripTrailingSeparator_def
  stripLeadingDashes_def

lemmas document_defs = emptyDoc_def textItem_def bareHeading_def cintaItems_def cintaHeading_def
  cintaDoc_def

lemmas details_defs = parseDetailsPage_def rowStep_def contohSection_def titleRootWord_def
  needsCompound_def getMakna_def updateLast_def parseKelasKata_def matchCodeName_def
  detailRow_def cintaDetails_def emptyDoc_def

lemmas parse_defs = parseEntries_def parseEntryDirectly_def parseEntry_def parseMirip_def
  checkAuthentication_def extractMeaningsDirectly_def plainTextMeanings_def classMatch_def
  plainClassName_def

lemmas more_document_defs = enHeading_def enDoc_def superscriptHeading_def superscriptDoc_def
  stubHeading1_def stubHeading2_def twoStubsDoc_def stub1_def stub2_def rowBlocks_def
  rowHtml_def titleHtml_def cintaTitle_def bothTitle_def bothDoc_def miripHeading_def
  miripDoc_def notFoundDoc_def mergedCinta_def serving_def

section \<open>Properties of the word-class extractor\<close>

lemma classNameOf_table:
  "classNameOf c = (case map_of wordClassTable c of Some n \<Rightarrow> n | None \<Rightarrow> [])"
  by (simp add: classNameOf_def wordClassTable_def)

lemma method2_member:
  assumes "\<not> font_nested f" and "font_title f = None" and "t \<in> set (fontTokens f)"
  shows "\<lparr>kode = t, nama = classNameOf t\<rparr> \<in> set (extractWordClasses_method2 f)"
  using assms by (auto simp: extractWordClasses_method2_def)

text \<open>
  C9. The word-class extractor is a total function: on every list item it returns a list.
  When no titled span gives a class, every token \<open>t\<close> of a top-level red marker without a
  titled span is in the result as the word class with \<open>kode = t\<close> and the name the fixed
  table gives it; a code that is not in the table gets the empty name.
\<close>

theorem extractWordClasses_total_over_codes:
  assumes "extractWordClasses_method1 li = []"
    and "f \<in> set (li_red li)" and "\<not> font_nested f" and "font_title f = None"
    and "t \<in> set (fontTokens f)"
  shows "\<lparr>kode = t, nama = (case map_of wordClassTable t of Some n \<Rightarrow> n | None \<Rightarrow> [])\<rparr>
           \<in> set (extractWordClasses li)
         \<and> (t \<notin> fst ` set wordClassTable \<longrightarrow>
              \<lparr>kode = t, nama = []\<rparr> \<in> set (extractWordClasses li))"
proof -
  have m: "\<lparr>kode = t, nama = classNameOf t\<rparr> \<in> set (extractWordClasses li)"
    using assms method2_member [of f t] by (auto simp: extractWordClasses_def Let_def)
  have u: "t \<notin> fst ` set wordClassTable \<Longrightarrow> map_of wordClassTable t = None"
    by (simp add: map_of_eq_None_iff)
  from m u show ?thesis by (auto simp: classNameOf_table)
qed

theorem extractWordClasses_total_over_codes_witness:
  "\<lparr>kode = js ''xyz'', nama = []\<rparr> \<in> set (extractWordClasses
     \<lparr>li_text = js ''xyz arti'', li_titled_spans = [],
      li_red = [\<lparr>font_nested = False, font_text = js ''xyz'', font_title = None\<rparr>],
      li_def_text = js '' arti'', li_grey = [], li_ki = 0\<rparr>)"
  using extractWordClasses_total_over_codes
    [of "\<lparr>li_text = js ''xyz arti'', li_titled_spans = [],
          li_red = [\<lparr>font_nested = False, font_text = js ''xyz'', font_title = None\<rparr>],
          li_def_text = js '' arti'', li_grey = [], li_ki = 0\<rparr>"
        "\<lparr>font_nested = False, font_text = js ''xyz'', font_title = None\<rparr>"
        "js ''xyz''"]
  by (simp add: extractWordClasses_method1_def fontTokens_def trim_def isSpace_def js_def
      isBarePunctuation_def wordClassTable_def)

section \<open>The numbers of the meanings of a list\<close>

lemma extractDefinition_nonempty: "extractDefinition li \<noteq> []"
  by (simp add: extractDefinition_def Let_def js_def)


lemma meaningOfItem_eq:
  "meaningOfItem i li =
     (if retained li
      then [\<lparr>nomor = Some (NomorStr (toStringNat (i + 1))), kelasKata = extractWordClasses li,
             definisi = extractDefinition li, contoh = extractExamples li, kiasan = None\<rparr>]
      else [])"
  by (simp add: meaningOfItem_def retained_def Let_def extractDefinition_nonempty)








lemma map_of_update_other: "k \<noteq> k' \<Longrightarrow> map_of (AList.update k v al) k' = map_of al k'"
  by (simp add: update_conv')

lemma getMakna_update_makna [simp]: "getMakna (AList.update ''makna'' (VMakna ms) al) = Some ms"
  by (simp add: getMakna_def update_conv')

lemma getMakna_update_other [simp]:
  "k \<noteq> ''makna'' \<Longrightarrow> getMakna (AList.update k v al) = getMakna al"
  by (simp add: getMakna_def update_conv')









section \<open>parseDetailsPage: null when nothing is populated\<close>

lemma rowStep_empty_iff: "rowStep result row = [] \<longleftrightarrow> result = [] \<and> \<not> populates row"
  by (auto simp: rowStep_def populates_def Let_def getMakna_def split: option.splits)

lemma foldl_rowStep_empty_iff:
  "foldl rowStep result rows = [] \<longleftrightarrow> result = [] \<and> \<not> list_ex populates rows"
  by (induction rows arbitrary: result) (auto simp: rowStep_empty_iff)

lemma contohSection_empty_iff:
  "contohSection result h4 = Inr r \<Longrightarrow> r = [] \<longleftrightarrow> result = []"
  by (auto simp: contohSection_def Let_def getMakna_def split: if_splits option.splits prod.splits)

lemma contohSection_Nil: "contohSection [] h4 = Inr []"
  by (simp add: contohSection_def Let_def getMakna_def split: option.splits prod.splits)

lemma foldThrow_contohSection_empty_iff:
  "foldThrow contohSection result h4s = Inr r \<Longrightarrow> r = [] \<longleftrightarrow> result = []"
proof (induction h4s arbitrary: result)
  case Nil
  then show ?case by auto
next
  case (Cons h4 h4s)
  then show ?case
    by (auto split: sum.splits dest: contohSection_empty_iff)
qed

lemma foldThrow_contohSection_Nil: "foldThrow contohSection [] h4s = Inr []"
  by (induction h4s) (simp_all add: contohSection_Nil)

lemma titleRootWord_empty_iff:
  "titleRootWord d result = [] \<longleftrightarrow> result = [] \<and> d_title_rootword d = None"
  by (auto simp: titleRootWord_def split: option.splits)

lemma needsCompound_nonempty: "needsCompound result \<Longrightarrow> result \<noteq> []"
  by (auto simp: needsCompound_def)

lemma parseDetailsPage_None_iff:
  "parseDetailsPage d = Inr None \<longleftrightarrow> \<not> list_ex populates (d_rows d) \<and> d_title_rootword d = None"
proof
  assume n: "parseDetailsPage d = Inr None"
  then obtain r2 where r2: "foldThrow contohSection (foldl rowStep [] (d_rows d)) (d_h4 d) = Inr r2"
    by (auto simp: parseDetailsPage_def split: sum.splits)
  have "titleRootWord d r2 = []"
  proof (cases "needsCompound (titleRootWord d r2)")
    case True
    with n r2 show ?thesis
      by (auto simp: parseDetailsPage_def Let_def split: sum.splits if_splits
          dest: needsCompound_nonempty)
  next
    case False
    with n r2 show ?thesis
      by (auto simp: parseDetailsPage_def Let_def split: if_splits)
  qed
  then have "r2 = []" and t: "d_title_rootword d = None"
    by (simp_all add: titleRootWord_empty_iff)
  with r2 have "foldl rowStep [] (d_rows d) = []"
    using foldThrow_contohSection_empty_iff by blast
  with t show "\<not> list_ex populates (d_rows d) \<and> d_title_rootword d = None"
    by (simp add: foldl_rowStep_empty_iff)
next
  assume a: "\<not> list_ex populates (d_rows d) \<and> d_title_rootword d = None"
  then have "foldl rowStep [] (d_rows d) = []"
    by (simp add: foldl_rowStep_empty_iff)
  moreover have "titleRootWord d [] = []"
    using a by (simp add: titleRootWord_empty_iff)
  ultimately show "parseDetailsPage d = Inr None"
    by (simp add: parseDetailsPage_def foldThrow_contohSection_Nil needsCompound_def)
qed

lemma parseDetailsPage_Some_nonempty: "parseDetailsPage d = Inr (Some e) \<Longrightarrow> e \<noteq> []"
  by (auto simp: parseDetailsPage_def Let_def split: sum.splits if_splits)

lemma parseDetailsPage_cintaDetails:
  "parseDetailsPage cintaDetails =
     Inr (Some [(''id'', VStr (js ''1'')), (''nama'', VStr (js ''cinta'')),
                (''makna'', VMakna [\<lparr>nomor = None,
                                      kelasKata = [\<lparr>kode = js ''a'', nama = js ''Adjektiva''\<rparr>],
                                      definisi = js ''suka sekali'', contoh = [],
                                      kiasan = None\<rparr>])])"
  by (simp add: details_defs string_defs)

text \<open>
  C6. On every document \<^verbatim>\<open>parseDetailsPage\<close> returns \<^verbatim>\<open>null\<close> exactly when no field could be
  populated: no row populates a field and the title holds no root-word link. An entry it
  returns has at least one key (\<^verbatim>\<open>Object.keys(result).length > 0\<close>). A field counts as
  populated when its key is set on the entry.
\<close>

theorem parseDetailsPage_null_iff_nothing_populated:
  "(parseDetailsPage d = Inr None \<longleftrightarrow>
      \<not> list_ex populates (d_rows d) \<and> d_title_rootword d = None)
   \<and> (\<forall>e. parseDetailsPage d = Inr (Some e) \<longrightarrow> e \<noteq> [])"
  using parseDetailsPage_None_iff [of d] parseDetailsPage_Some_nonempty [of d] by blast

text \<open>
  The empty page gives \<^verbatim>\<open>null\<close>; the details page \<open>cintaDetails\<close>, whose rows populate
  fields, does not.
\<close>

theorem parseDetailsPage_null_iff_nothing_populated_witness:
  "parseDetailsPage emptyDoc = Inr None
   \<and> list_ex populates (d_rows cintaDetails)
   \<and> parseDetailsPage cintaDetails \<noteq> Inr None"
proof -
  have a: "\<not> list_ex populates (d_rows emptyDoc) \<and> d_title_rootword emptyDoc = None"
    by (simp add: emptyDoc_def)
  have b: "list_ex populates (d_rows cintaDetails)"
    by (simp add: cintaDetails_def emptyDoc_def detailRow_def populates_def string_defs)
  from a b show ?thesis
    using parseDetailsPage_null_iff_nothing_populated [of emptyDoc]
      parseDetailsPage_null_iff_nothing_populated [of cintaDetails]
    by blast
qed

section \<open>The definition and the name that end up empty\<close>

text \<open>
  On the paths other than the plain-text branch a meaning has a definition that is not
  empty: the list paths substitute the sentinel, the others test the text.
\<close>

lemma meaningOfItem_definisi: "m \<in> set (meaningOfItem i li) \<Longrightarrow> definisi m \<noteq> []"
  by (auto simp: meaningOfItem_eq extractDefinition_nonempty split: if_splits)

lemma compoundItem_definisi: "m \<in> set (compoundItem i li) \<Longrightarrow> definisi m \<noteq> []"
  by (auto simp: compoundItem_def Let_def split: if_splits)

lemma blockMeaning_definisi:
  "list_all (\<lambda>m. definisi m \<noteq> []) ms \<Longrightarrow> list_all (\<lambda>m. definisi m \<noteq> []) (blockMeaning ms blk)"
  by (auto simp: blockMeaning_def Let_def)

text \<open>
  C8. The claim fails on the plain-text branch of \<^verbatim>\<open>extractMeaningsDirectly\<close>. On the page
  \<open>enDoc\<close> the text after the heading is \<^verbatim>\<open>n\<close>; it is not empty, so the branch is taken; the
  class code \<^verbatim>\<open>n\<close> is found and removed from the text, and the meaning is pushed with what is
  left, the empty string, as its \<^verbatim>\<open>definisi\<close>.
\<close>

theorem plain_text_definisi_empty:
  "parseEntries enDoc =
     Inr \<lparr>pr_entries =
            [[(''id'', VNull), (''nama'', VStr (js ''en'')), (''nomor'', VStr []),
              (''makna'', VMakna [\<lparr>nomor = Some (NomorStr (js ''1'')),
                                    kelasKata = [\<lparr>kode = js ''n'', nama = js ''Nomina''\<rparr>],
                                    definisi = [], contoh = [], kiasan = None\<rparr>])]],
          pr_mirip = None\<rparr>"
  by (simp add: parse_defs document_defs more_document_defs extractor_defs string_defs
      List.map_filter_def)

text \<open>
  A character that is neither white space nor a superscript digit survives the removal
  of the superscripts, so that the name stays non-empty when it holds one.
\<close>

lemma stripSuperscripts_nonempty:
  assumes "c \<in> set s" and "\<not> isSpace c" and "\<not> isSuperscript c" and "c \<noteq> 8304"
  shows "stripSuperscripts s \<noteq> []"
  using assms
  by (induction s) (auto simp: isSuperscript_def)

text \<open>
  C10. The claim fails for a heading whose text holds superscript digits only. On the page
  \<open>superscriptDoc\<close> the name text is the superscript one: it is not empty, so the heading
  passes the test \<^verbatim>\<open>if (!entryName) return null\<close>; the superscripts are removed after the
  test, and the entry is returned with the empty string as its \<^verbatim>\<open>nama\<close>.
\<close>

theorem superscript_heading_empty_nama:
  "parseEntries superscriptDoc =
     Inr \<lparr>pr_entries = [[(''id'', VNull), (''nama'', VStr []), (''nomor'', VStr []),
                          (''makna'', VMakna [])]],
          pr_mirip = None\<rparr>"
  by (simp add: parse_defs document_defs more_document_defs extractor_defs string_defs
      List.map_filter_def)

section \<open>The classification of a document\<close>

text \<open>
  C2, as amended. \<^verbatim>\<open>parseEntries\<close> tests for the not-found page first: a document with no
  entry heading and the not-found text is treated as NotFound; only otherwise, a document
  with the details marker is treated as EntryDetail; otherwise it is treated as
  SearchResults. This is the order of the specification on every document but those that
  hold the details marker, no entry heading and the not-found text.
\<close>

theorem parseEntries_classification:
  "parseEntries d = parseAs (classify_not_found_first d) d
   \<and> (\<not> (d_detail_data d > 0 \<and> d_entry_headings d = [] \<and> d_not_found d > 0) \<longrightarrow>
        classify_not_found_first d = classify_spec d)"
  by (simp add: parseEntries_def classify_not_found_first_def classify_spec_def)

text \<open>
  The details page and the search page of \<^verbatim>\<open>cinta\<close> are classified as the specification
  says.
\<close>

theorem parseEntries_classification_witness:
  "parseEntries cintaDetails = parseAs EntryDetail cintaDetails
   \<and> classify_spec cintaDetails = EntryDetail
   \<and> parseEntries cintaDoc = parseAs SearchResults cintaDoc
   \<and> classify_spec cintaDoc = SearchResults"
  using parseEntries_classification [of cintaDetails] parseEntries_classification [of cintaDoc]
  by (simp add: classify_not_found_first_def classify_spec_def cintaDetails_def cintaDoc_def
      emptyDoc_def)

text \<open>
  C2 as stated fails on the page \<open>bothDoc\<close>, which holds the details marker, the not-found
  text and no entry heading: the specification classifies it as EntryDetail, which gives
  the entry of its row, and \<^verbatim>\<open>parseEntries\<close> returns no entry and the (empty) suggestions.
\<close>

theorem parseEntries_classification_counterexample:
  "classify_spec bothDoc = EntryDetail
   \<and> parseEntries bothDoc = Inr \<lparr>pr_entries = [], pr_mirip = Some []\<rparr>
   \<and> parseAs EntryDetail bothDoc =
       Inr \<lparr>pr_entries = [[(''nama'', VStr (js ''cinta''))]], pr_mirip = None\<rparr>"
  by (simp add: classify_spec_def parse_defs details_defs document_defs more_document_defs
      string_defs)

section \<open>The orchestrator: lemmas\<close>

lemma matchDigitsAfter_nonempty: "matchDigitsAfter pre s = Some m \<Longrightarrow> m \<noteq> []"
  by (induction s) (auto split: if_splits)

lemma extractId_nonempty: "extractId h = Some i \<Longrightarrow> i \<noteq> []"
  by (auto simp: extractId_def split: option.splits dest: matchDigitsAfter_nonempty)

lemma parseEntry_None_iff: "parseEntry d h = None \<longleftrightarrow> extractId h = None"
  by (auto simp: parseEntry_def Let_def split: option.splits dest: extractId_nonempty)

lemma parseEntry_Some_id:
  "parseEntry d h = Some s \<Longrightarrow> truthy (map_of s ''id'')"
  by (auto simp: parseEntry_def Let_def split: option.splits if_splits)

lemma length_map_filter:
  "length (List.map_filter f xs) = length (filter (\<lambda>x. f x \<noteq> None) xs)"
  by (induction xs) (auto simp: List.map_filter_def)

lemma set_map_filter: "set (List.map_filter f xs) = {y. \<exists>x \<in> set xs. f x = Some y}"
  by (induction xs) (auto simp: List.map_filter_def)

lemma stubs_have_ids:
  "list_all (\<lambda>s. truthy (map_of s ''id'')) (List.map_filter (parseEntry d) hs)"
  by (auto simp: list_all_iff set_map_filter dest: parseEntry_Some_id)

lemma spread_Nil [simp]: "spread obj [] = obj"
  by (simp add: spread_def)



lemma detailLoop_result:
  assumes "list_all (\<lambda>s. truthy (map_of s ''id'')) stubs"
    and "detailLoop env n acc stubs = Inr r"
  shows "length r = length acc + length stubs \<and> take (length acc) r = acc
         \<and> (\<forall>i < length stubs. fetchDetails env (n + i) (stubs ! i) = Inr (r ! (length acc + i)))"
  using assms
proof (induction stubs arbitrary: n acc r)
  case Nil
  then show ?case by simp
next
  case (Cons s stubs)
  from Cons.prems obtain m where m: "fetchDetails env n s = Inr m"
    and rest: "detailLoop env (Suc n) (acc @ [m]) stubs = Inr r"
    by (auto split: sum.splits)
  from Cons.prems(1) have all: "list_all (\<lambda>s. truthy (map_of s ''id'')) stubs" by simp
  from Cons.IH [OF all rest]
  have len: "length r = length (acc @ [m]) + length stubs"
    and tk: "take (length (acc @ [m])) r = acc @ [m]"
    and ix: "\<forall>i < length stubs. fetchDetails env (Suc n + i) (stubs ! i) = Inr (r ! (length (acc @ [m]) + i))"
    by blast+
  have "take (length acc) (take (length (acc @ [m])) r) = take (length acc) r"
    by (simp add: take_take)
  with tk have t1: "take (length acc) r = acc" by simp
  have "(take (length (acc @ [m])) r) ! length acc = r ! length acc"
    by (simp add: nth_take)
  with tk have rm: "r ! length acc = m" by simp
  show ?case
  proof (intro conjI allI impI)
    show "length r = length acc + length (s # stubs)" using len by simp
    show "take (length acc) r = acc" by (rule t1)
    fix i assume i: "i < length (s # stubs)"
    show "fetchDetails env (n + i) ((s # stubs) ! i) = Inr (r ! (length acc + i))"
    proof (cases i)
      case 0
      then show ?thesis using m rm by simp
    next
      case (Suc j)
      then show ?thesis using ix i by simp
    qed
  qed
qed







lemma scrapeWord_entries:
  assumes "scrapeWord env w = Inr r" and "navigateTo env 0 (EntriUrl w) = Some html"
  shows "length (entries r) = length (List.map_filter (parseEntry html) (d_entry_headings html))
         \<and> (\<forall>i < length (entries r).
               fetchDetails env (Suc i) (List.map_filter (parseEntry html) (d_entry_headings html) ! i)
                 = Inr (entries r ! i))"
proof (cases "List.map_filter (parseEntry html) (d_entry_headings html) = []")
  case True
  with assms show ?thesis by (auto simp: scrapeWord_def Let_def split: if_splits)
next
  case False
  with assms have
    "detailLoop env 1 [] (List.map_filter (parseEntry html) (d_entry_headings html))
       = Inr (entries r)"
    by (auto simp: scrapeWord_def Let_def split: if_splits sum.splits)
  from detailLoop_result [OF stubs_have_ids this] show ?thesis by simp
qed







lemma rowStep_distinct: "distinct (map fst result) \<Longrightarrow> distinct (map fst (rowStep result row))"
  by (auto simp: rowStep_def Let_def distinct_update split: option.splits)

lemma foldl_rowStep_distinct:
  "distinct (map fst result) \<Longrightarrow> distinct (map fst (foldl rowStep result rows))"
  by (induction rows arbitrary: result) (simp_all add: rowStep_distinct)

lemma contohSection_distinct:
  "distinct (map fst result) \<Longrightarrow> contohSection result h4 = Inr r \<Longrightarrow> distinct (map fst r)"
  by (auto simp: contohSection_def Let_def distinct_update split: if_splits option.splits prod.splits)

lemma foldThrow_contohSection_distinct:
  "distinct (map fst result) \<Longrightarrow> foldThrow contohSection result h4s = Inr r
   \<Longrightarrow> distinct (map fst r)"
proof (induction h4s arbitrary: result)
  case Nil
  then show ?case by simp
next
  case (Cons h4 h4s)
  then show ?case
    by (auto split: sum.splits dest: contohSection_distinct)
qed

lemma titleRootWord_distinct:
  "distinct (map fst result) \<Longrightarrow> distinct (map fst (titleRootWord d result))"
  by (auto simp: titleRootWord_def distinct_update split: option.splits)

lemma parseDetailsPage_distinct:
  assumes "parseDetailsPage d = Inr (Some D)"
  shows "distinct (map fst D)"
proof -
  from assms obtain r2 where r2: "foldThrow contohSection (foldl rowStep [] (d_rows d)) (d_h4 d) = Inr r2"
    by (auto simp: parseDetailsPage_def split: sum.splits)
  have "distinct (map fst (foldl rowStep [] (d_rows d)))"
    by (rule foldl_rowStep_distinct) simp
  with r2 have "distinct (map fst r2)"
    by (rule foldThrow_contohSection_distinct [rotated])
  then have d3: "distinct (map fst (titleRootWord d r2))"
    by (rule titleRootWord_distinct)
  from assms r2 show ?thesis
    using d3
    by (auto simp: parseDetailsPage_def Let_def distinct_update split: sum.splits if_splits)
qed

lemma spread_map_of:
  "distinct (map fst D) \<Longrightarrow> map_of (spread S D) = map_of S ++ map_of D"
proof (induction D arbitrary: S)
  case Nil
  then show ?case by simp
next
  case (Cons kv D)
  obtain k v where kv: "kv = (k, v)" by (cases kv)
  from Cons.prems kv have dD: "distinct (map fst D)" and notin: "k \<notin> fst ` set D" by auto
  have "spread S (kv # D) = spread (AList.update k v S) D"
    by (simp add: spread_def kv)
  then have "map_of (spread S (kv # D)) = map_of (AList.update k v S) ++ map_of D"
    using Cons.IH [OF dD] by simp
  then have e1: "map_of (spread S (kv # D)) = (map_of S)(k \<mapsto> v) ++ map_of D"
    by (simp only: update_conv')
  from notin have n: "map_of D k = None" by (simp add: map_of_eq_None_iff)
  have e2: "((map_of S)(k \<mapsto> v) ++ map_of D) x = (map_of S ++ map_of ((k, v) # D)) x" for x
    using n by (cases "x = k") (simp_all add: map_add_def split: option.splits)
  from e1 e2 show ?case unfolding kv by (auto simp only: fun_eq_iff)
qed

lemma fetchDetails_merge:
  "navigateTo env n (DetailsUrl (idOf S)) = Some doc \<Longrightarrow> parseDetailsPage doc = Inr (Some D)
   \<Longrightarrow> fetchDetails env n S = Inr (spread S D)"
  by (simp add: fetchDetails_def)

lemma parseEntry_stubHeading1: "parseEntry twoStubsDoc stubHeading1 = Some stub1"
  by (simp add: parse_defs document_defs more_document_defs extractor_defs string_defs)

lemma parseEntry_stubHeading2: "parseEntry twoStubsDoc stubHeading2 = Some stub2"
  by (simp add: parse_defs document_defs more_document_defs extractor_defs string_defs)

lemma stubs_twoStubsDoc:
  "List.map_filter (parseEntry twoStubsDoc) (d_entry_headings twoStubsDoc) = [stub1, stub2]"
  using parseEntry_stubHeading1 parseEntry_stubHeading2
  by (simp add: List.map_filter_def twoStubsDoc_def emptyDoc_def)

lemma idOf_stub1: "idOf stub1 = js ''1''" by (simp add: idOf_def stub1_def)
lemma idOf_stub2: "idOf stub2 = js ''2''" by (simp add: idOf_def stub2_def)

lemma spread_stub1_cinta:
  "spread stub1 [(''id'', VStr (js ''1'')), (''nama'', VStr (js ''cinta'')),
                (''makna'', VMakna [\<lparr>nomor = None,
                                      kelasKata = [\<lparr>kode = js ''a'', nama = js ''Adjektiva''\<rparr>],
                                      definisi = js ''suka sekali'', contoh = [],
                                      kiasan = None\<rparr>])]
   = [(''nama'', VStr (js ''cinta'')), (''nomor'', VStr []), (''id'', VStr (js ''1'')),
      (''rootWord'', VNull),
      (''makna'', VMakna [\<lparr>nomor = None,
                            kelasKata = [\<lparr>kode = js ''a'', nama = js ''Adjektiva''\<rparr>],
                            definisi = js ''suka sekali'', contoh = [], kiasan = None\<rparr>])]"
  by (simp add: spread_def stub1_def)


lemma scrapeWord_twoStubs:
  "scrapeWord (serving twoStubsDoc [(js ''1'', cintaDetails)] False) (js ''cinta'') =
     Inr \<lparr>word = js ''cinta'', authenticated = False, entries = [mergedCinta, stub2],
          mirip = Some []\<rparr>"
proof -
  have a: "fetchDetails (serving twoStubsDoc [(js ''1'', cintaDetails)] False) 1 stub1
           = Inr mergedCinta"
    by (simp add: fetchDetails_def idOf_stub1 serving_def parseDetailsPage_cintaDetails
        spread_stub1_cinta mergedCinta_def)
  have b: "fetchDetails (serving twoStubsDoc [(js ''1'', cintaDetails)] False) 2 stub2
           = Inr stub2"
    by (simp add: fetchDetails_def idOf_stub2 serving_def js_def)
  have c: "truthy (map_of stub1 ''id'')" "truthy (map_of stub2 ''id'')"
    by (simp_all add: stub1_def stub2_def js_def)
  have l: "detailLoop (serving twoStubsDoc [(js ''1'', cintaDetails)] False) (Suc 0) []
             [stub1, stub2] = Inr [mergedCinta, stub2]"
    using a b c by (simp add: numeral_2_eq_2)
  have n: "navigateTo (serving twoStubsDoc [(js ''1'', cintaDetails)] False) 0 (EntriUrl (js ''cinta''))
           = Some twoStubsDoc"
    by (simp add: serving_def)
  have m: "parseMirip twoStubsDoc = []" "checkAuthentication twoStubsDoc = False"
    by (simp_all add: parseMirip_def checkAuthentication_def twoStubsDoc_def emptyDoc_def)
  have cf: "\<not> checkCloudflare (serving twoStubsDoc [(js ''1'', cintaDetails)] False)"
    by (simp add: serving_def)
  have w: "js ''cinta'' \<noteq> []"
    by (simp add: js_def)
  show ?thesis
    by (simp add: scrapeWord_def l n m cf w stubs_twoStubsDoc del: detailLoop.simps)
qed

lemma lookup_notFoundDoc:
  "lookup (serving notFoundDoc [] False) (js ''cnta'') =
     Inr \<lparr>word = js ''cnta'', authenticated = False, entries = [],
          mirip = Some [js ''cita'', js ''cinta'']\<rparr>"
  by (simp add: lookup_def serving_def parseEntries_def parseMirip_def checkAuthentication_def
      notFoundDoc_def emptyDoc_def string_defs)

lemma scrapeWord_cintaDoc:
  "scrapeWord (serving cintaDoc [] False) (js ''cinta'') =
     Inr \<lparr>word = js ''cinta'', authenticated = False, entries = [], mirip = Some []\<rparr>"
  by (simp add: scrapeWord_def serving_def parse_defs document_defs extractor_defs string_defs
      List.map_filter_def)

section \<open>The detail phase of scrapeWord\<close>




section \<open>The merge law\<close>

text \<open>
  C3. For every stub \<open>S\<close> and every entry \<open>D\<close> that \<^verbatim>\<open>parseDetailsPage\<close> returns, the
  \<^verbatim>\<open>nama\<close> of the merged entry \<^verbatim>\<open>{...S, ...D}\<close> is the one of \<open>D\<close> when \<open>D\<close> has the key, and
  the one of \<open>S\<close> otherwise; the same holds for every key; and the merged entry is what
  the round of the stub pushes when the page is fetched.
\<close>

theorem merge_law:
  assumes "parseDetailsPage doc = Inr (Some D)"
  shows "map_of (spread S D) ''nama''
           = (case map_of D ''nama'' of Some v \<Rightarrow> Some v | None \<Rightarrow> map_of S ''nama'')
         \<and> (\<forall>k. map_of (spread S D) k
                = (case map_of D k of Some v \<Rightarrow> Some v | None \<Rightarrow> map_of S k))
         \<and> (navigateTo env n (DetailsUrl (idOf S)) = Some doc \<longrightarrow>
                fetchDetails env n S = Inr (spread S D))"
proof -
  have "map_of (spread S D) = map_of S ++ map_of D"
    using assms by (intro spread_map_of parseDetailsPage_distinct)
  then have "\<And>k. map_of (spread S D) k
                = (case map_of D k of Some v \<Rightarrow> Some v | None \<Rightarrow> map_of S k)"
    by (simp add: map_add_def)
  then show ?thesis using assms by (simp add: fetchDetails_merge)
qed

text \<open>
  The first stub and the details of its page: \<^verbatim>\<open>nama\<close> comes from the details, \<^verbatim>\<open>nomor\<close>,
  which the details do not have, from the stub.
\<close>

theorem merge_law_witness:
  "map_of (spread stub1
       [(''id'', VStr (js ''1'')), (''nama'', VStr (js ''cinta'')),
        (''makna'', VMakna [\<lparr>nomor = None,
                              kelasKata = [\<lparr>kode = js ''a'', nama = js ''Adjektiva''\<rparr>],
                              definisi = js ''suka sekali'', contoh = [], kiasan = None\<rparr>])])
     ''nama'' = Some (VStr (js ''cinta''))
   \<and> map_of (spread stub1
       [(''id'', VStr (js ''1'')), (''nama'', VStr (js ''cinta'')),
        (''makna'', VMakna [\<lparr>nomor = None,
                              kelasKata = [\<lparr>kode = js ''a'', nama = js ''Adjektiva''\<rparr>],
                              definisi = js ''suka sekali'', contoh = [], kiasan = None\<rparr>])])
     ''nomor'' = Some (VStr [])"
  using merge_law [OF parseDetailsPage_cintaDetails, of stub1]
  by (simp add: stub1_def)

section \<open>mirip and entries\<close>

lemma scrapeWord_html:
  assumes "scrapeWord env w = Inr r" and "navigateTo env 0 (EntriUrl w) = Some html"
  shows "mirip r = Some (parseMirip html)
         \<and> (List.map_filter (parseEntry html) (d_entry_headings html) = [] \<longrightarrow> entries r = [])"
  using assms
  by (auto simp: scrapeWord_def Let_def split: if_splits sum.splits)

lemma parseEntries_mirip:
  assumes "parseEntries d = Inr p"
  shows "(pr_entries p \<noteq> [] \<longrightarrow> pr_mirip p = None) \<and> (pr_mirip p \<noteq> None \<longrightarrow> pr_entries p = [])"
  using assms
  by (auto simp: parseEntries_def split: if_splits sum.splits option.splits)

lemma lookup_mirip:
  assumes "lookup env w = Inr r"
  shows "(entries r \<noteq> [] \<longrightarrow> mirip r = None) \<and> (mirip r \<noteq> None \<longrightarrow> entries r = [])"
proof -
  from assms obtain html p where "parseEntries html = Inr p"
    and "entries r = pr_entries p" and "mirip r = pr_mirip p"
    by (auto simp: lookup_def split: if_splits option.splits sum.splits)
  then show ?thesis using parseEntries_mirip [of html p] by simp
qed

text \<open>
  C4, as amended. In a result of \<^verbatim>\<open>lookup\<close> the key \<^verbatim>\<open>mirip\<close> is present only when
  \<^verbatim>\<open>entries\<close> is empty, and whenever \<^verbatim>\<open>entries\<close> is non-empty \<^verbatim>\<open>mirip\<close> is absent
  (\<^verbatim>\<open>undefined\<close>, not the empty list). In a result of \<^verbatim>\<open>scrapeWord\<close>, \<^verbatim>\<open>mirip\<close> is the list of
  the suggestions of the search page, whatever \<^verbatim>\<open>entries\<close> holds, and \<^verbatim>\<open>entries\<close> is empty
  when no heading gives a stub.
\<close>

theorem mirip_and_entries:
  "(lookup env w = Inr r \<longrightarrow>
      (entries r \<noteq> [] \<longrightarrow> mirip r = None) \<and> (mirip r \<noteq> None \<longrightarrow> entries r = []))
   \<and> (scrapeWord env w = Inr r' \<and> navigateTo env 0 (EntriUrl w) = Some html \<longrightarrow>
        mirip r' = Some (parseMirip html)
        \<and> (List.map_filter (parseEntry html) (d_entry_headings html) = [] \<longrightarrow> entries r' = []))"
  using lookup_mirip [of env w r] scrapeWord_html [of env w r' html] by blast

text \<open>
  \<^verbatim>\<open>lookup\<close> on the not-found page gives the two suggestions and no entry; \<^verbatim>\<open>scrapeWord\<close> on
  the page \<open>cintaDoc\<close> gives the suggestions of that page.
\<close>

theorem mirip_and_entries_witness:
  "mirip \<lparr>word = js ''cnta'', authenticated = False, entries = [],
          mirip = Some [js ''cita'', js ''cinta'']\<rparr> \<noteq> None
   \<and> entries \<lparr>word = js ''cnta'', authenticated = False, entries = [],
          mirip = Some [js ''cita'', js ''cinta'']\<rparr> = []
   \<and> mirip \<lparr>word = js ''cinta'', authenticated = False, entries = [], mirip = Some []\<rparr>
       = Some (parseMirip cintaDoc)"
proof -
  have n: "navigateTo (serving cintaDoc [] False) 0 (EntriUrl (js ''cinta'')) = Some cintaDoc"
    by (simp add: serving_def)
  show ?thesis
    using mirip_and_entries
      [of "serving notFoundDoc [] False" "js ''cnta''"
          "\<lparr>word = js ''cnta'', authenticated = False, entries = [],
            mirip = Some [js ''cita'', js ''cinta'']\<rparr>"]
      mirip_and_entries
      [of "serving cintaDoc [] False" "js ''cinta''" _
          "\<lparr>word = js ''cinta'', authenticated = False, entries = [], mirip = Some []\<rparr>"
          cintaDoc]
      lookup_notFoundDoc scrapeWord_cintaDoc n
    by simp
qed

text \<open>
  C4 as stated fails for \<^verbatim>\<open>scrapeWord\<close> on the page \<open>miripDoc\<close>, which holds an entry with
  an id and a suggestion: both \<^verbatim>\<open>entries\<close> and \<^verbatim>\<open>mirip\<close> are non-empty.
\<close>

theorem mirip_with_entries_counterexample:
  "scrapeWord (serving miripDoc [] False) (js ''cinta'') =
     Inr \<lparr>word = js ''cinta'', authenticated = False, entries = [stub1],
          mirip = Some [js ''cita'']\<rparr>"
proof -
  have p: "List.map_filter (parseEntry miripDoc) (d_entry_headings miripDoc) = [stub1]"
    by (simp add: List.map_filter_def parse_defs document_defs more_document_defs extractor_defs
        string_defs)
  have f: "fetchDetails (serving miripDoc [] False) (Suc 0) stub1 = Inr stub1"
    by (simp add: fetchDetails_def serving_def)
  have t: "truthy (map_of stub1 ''id'')"
    by (simp add: stub1_def js_def)
  have m: "parseMirip miripDoc = [js ''cita'']" "checkAuthentication miripDoc = False"
    by (simp_all add: parseMirip_def checkAuthentication_def miripDoc_def emptyDoc_def string_defs)
  have n: "navigateTo (serving miripDoc [] False) 0 (EntriUrl (js ''cinta'')) = Some miripDoc"
    "\<not> checkCloudflare (serving miripDoc [] False)"
    by (simp_all add: serving_def)
  have w: "js ''cinta'' \<noteq> []"
    by (simp add: js_def)
  show ?thesis
    by (simp add: scrapeWord_def p f t m n w)
qed

section \<open>Headings without an id\<close>

text \<open>
  C5, as amended. A heading whose extracted id is \<^verbatim>\<open>null\<close> yields no stub: \<^verbatim>\<open>parseEntry\<close>
  returns \<^verbatim>\<open>null\<close> for it and it is dropped. The result of the orchestrator holds one entry
  for each heading that has an id, and none for the others.
\<close>

theorem null_id_heading_dropped:
  "(extractId h = None \<longrightarrow> parseEntry d h = None)
   \<and> (scrapeWord env w = Inr r \<and> navigateTo env 0 (EntriUrl w) = Some html \<longrightarrow>
        length (entries r) = length (filter (\<lambda>h. extractId h \<noteq> None) (d_entry_headings html)))"
proof (intro conjI impI)
  assume "extractId h = None"
  then show "parseEntry d h = None" by (simp add: parseEntry_None_iff)
next
  assume a: "scrapeWord env w = Inr r \<and> navigateTo env 0 (EntriUrl w) = Some html"
  have "length (entries r) = length (List.map_filter (parseEntry html) (d_entry_headings html))"
    using scrapeWord_entries [of env w r html] a by blast
  then show "length (entries r) = length (filter (\<lambda>h. extractId h \<noteq> None) (d_entry_headings html))"
    by (simp add: length_map_filter parseEntry_None_iff)
qed

text \<open>
  The heading of the page \<open>cintaDoc\<close> has no id and gives no stub; the two headings of
  the page \<open>twoStubsDoc\<close> have one, and the result holds two entries.
\<close>

theorem null_id_heading_dropped_witness:
  "parseEntry cintaDoc cintaHeading = None
   \<and> length (entries \<lparr>word = js ''cinta'', authenticated = False,
                       entries = [mergedCinta, stub2], mirip = Some []\<rparr>)
       = length (filter (\<lambda>h. extractId h \<noteq> None) (d_entry_headings twoStubsDoc))"
proof -
  have i: "extractId cintaHeading = None"
    by (simp add: extractId_def cintaHeading_def bareHeading_def)
  have n: "navigateTo (serving twoStubsDoc [(js ''1'', cintaDetails)] False) 0 (EntriUrl (js ''cinta''))
           = Some twoStubsDoc"
    by (simp add: serving_def)
  show ?thesis
    using null_id_heading_dropped
      [of cintaHeading cintaDoc "serving twoStubsDoc [(js ''1'', cintaDetails)] False"
          "js ''cinta''"
          "\<lparr>word = js ''cinta'', authenticated = False, entries = [mergedCinta, stub2],
            mirip = Some []\<rparr>" twoStubsDoc]
      i n scrapeWord_twoStubs
    by blast
qed

text \<open>
  C5 as stated fails on the page \<open>cintaDoc\<close>: its one heading has no id, and the result of
  the orchestrator holds no entry, where the claim keeps a stub.
\<close>

theorem null_id_heading_retained_counterexample:
  "extractId cintaHeading = None
   \<and> d_entry_headings cintaDoc = [cintaHeading]
   \<and> scrapeWord (serving cintaDoc [] False) (js ''cinta'') =
       Inr \<lparr>word = js ''cinta'', authenticated = False, entries = [], mirip = Some []\<rparr>"
  using scrapeWord_cintaDoc
  by (simp add: extractId_def cintaHeading_def bareHeading_def cintaDoc_def emptyDoc_def)

end
